theory Spec2Isabelle
  imports Main "HOL-Library.Word"
begin

unbundle bit_operations_syntax

section \<open>Platform types and constants\<close>

text \<open>
  The translation unit \<^verbatim>\<open>PlatformEGLAndroid.cpp\<close> talks to EGL, OpenGL ES and the
  Android NDK. Handles and addresses (\<^verbatim>\<open>void*\<close>, \<^verbatim>\<open>EGLImageKHR\<close>,
  \<^verbatim>\<open>EGLClientBuffer\<close>, \<^verbatim>\<open>EGLDisplay\<close>, heap pointers) are natural numbers
  with \<open>0\<close> for the null handle; \<^verbatim>\<open>EGLint\<close>, \<^verbatim>\<open>GLenum\<close>, \<^verbatim>\<open>GLuint\<close> and the
  buffer format are 32-bit words, the usage flags and nanosecond counts are 64-bit words.
\<close>

type_synonym ptr = nat
type_synonym EGLint = "32 word"
type_synonym GLenum = "32 word"
type_synonym GLuint = "32 word"
type_synonym int64_t = "64 word"
type_synonym Config = "(EGLint \<times> EGLint) list"

text \<open>Enumerators of \<^verbatim>\<open><android/hardware_buffer.h>\<close> named by the source.\<close>

definition AHARDWAREBUFFER_FORMAT_R8G8B8A8_UNORM :: "32 word" where
  "AHARDWAREBUFFER_FORMAT_R8G8B8A8_UNORM = 1"
definition AHARDWAREBUFFER_FORMAT_R8G8B8X8_UNORM :: "32 word" where
  "AHARDWAREBUFFER_FORMAT_R8G8B8X8_UNORM = 2"
definition AHARDWAREBUFFER_FORMAT_R8G8B8_UNORM :: "32 word" where
  "AHARDWAREBUFFER_FORMAT_R8G8B8_UNORM = 3"
definition AHARDWAREBUFFER_FORMAT_R5G6B5_UNORM :: "32 word" where
  "AHARDWAREBUFFER_FORMAT_R5G6B5_UNORM = 4"
definition AHARDWAREBUFFER_FORMAT_R16G16B16A16_FLOAT :: "32 word" where
  "AHARDWAREBUFFER_FORMAT_R16G16B16A16_FLOAT = 0x16"
definition AHARDWAREBUFFER_FORMAT_R10G10B10A2_UNORM :: "32 word" where
  "AHARDWAREBUFFER_FORMAT_R10G10B10A2_UNORM = 0x2b"
definition AHARDWAREBUFFER_FORMAT_D16_UNORM :: "32 word" where
  "AHARDWAREBUFFER_FORMAT_D16_UNORM = 0x30"
definition AHARDWAREBUFFER_FORMAT_D24_UNORM :: "32 word" where
  "AHARDWAREBUFFER_FORMAT_D24_UNORM = 0x31"
definition AHARDWAREBUFFER_FORMAT_D24_UNORM_S8_UINT :: "32 word" where
  "AHARDWAREBUFFER_FORMAT_D24_UNORM_S8_UINT = 0x32"
definition AHARDWAREBUFFER_FORMAT_D32_FLOAT :: "32 word" where
  "AHARDWAREBUFFER_FORMAT_D32_FLOAT = 0x33"
definition AHARDWAREBUFFER_FORMAT_D32_FLOAT_S8_UINT :: "32 word" where
  "AHARDWAREBUFFER_FORMAT_D32_FLOAT_S8_UINT = 0x34"
definition AHARDWAREBUFFER_FORMAT_S8_UINT :: "32 word" where
  "AHARDWAREBUFFER_FORMAT_S8_UINT = 0x35"

text \<open>Two formats the switch does not list: the blob format and planar YUV 4:2:0.\<close>

definition AHARDWAREBUFFER_FORMAT_BLOB :: "32 word" where
  "AHARDWAREBUFFER_FORMAT_BLOB = 0x21"
definition AHARDWAREBUFFER_FORMAT_Y8Cb8Cr8_420 :: "32 word" where
  "AHARDWAREBUFFER_FORMAT_Y8Cb8Cr8_420 = 0x23"

definition AHARDWAREBUFFER_USAGE_PROTECTED_CONTENT :: "64 word" where
  "AHARDWAREBUFFER_USAGE_PROTECTED_CONTENT = push_bit 14 1"

text \<open>Enumerators of \<^verbatim>\<open><EGL/egl.h>\<close> and \<^verbatim>\<open><EGL/eglext.h>\<close>.\<close>

definition EGL_FALSE :: EGLint where "EGL_FALSE = 0"
definition EGL_TRUE :: EGLint where "EGL_TRUE = 1"
definition EGL_NONE :: EGLint where "EGL_NONE = 0x3038"
definition EGL_IMAGE_PRESERVED_KHR :: EGLint where "EGL_IMAGE_PRESERVED_KHR = 0x30D2"
definition EGL_GL_COLORSPACE :: EGLint where "EGL_GL_COLORSPACE = 0x309D"
definition EGL_GL_COLORSPACE_SRGB :: EGLint where "EGL_GL_COLORSPACE_SRGB = 0x3089"
definition EGL_PROTECTED_CONTENT_EXT :: EGLint where "EGL_PROTECTED_CONTENT_EXT = 0x32C0"
definition EGL_NATIVE_BUFFER_ANDROID :: EGLint where "EGL_NATIVE_BUFFER_ANDROID = 0x3140"
definition EGL_NO_CONTEXT :: ptr where "EGL_NO_CONTEXT = 0"
definition EGL_NO_IMAGE_KHR :: ptr where "EGL_NO_IMAGE_KHR = 0"

text \<open>Enumerators of \<^verbatim>\<open><GLES2/gl2.h>\<close> and \<^verbatim>\<open><GLES2/gl2ext.h>\<close>.\<close>

definition GL_NO_ERROR :: GLenum where "GL_NO_ERROR = 0"
definition GL_INVALID_OPERATION :: GLenum where "GL_INVALID_OPERATION = 0x0502"
definition GL_TEXTURE0 :: GLenum where "GL_TEXTURE0 = 0x84C0"
definition GL_TEXTURE_2D :: GLenum where "GL_TEXTURE_2D = 0x0DE1"
definition GL_TEXTURE_EXTERNAL_OES :: GLenum where "GL_TEXTURE_EXTERNAL_OES = 0x8D65"
definition GL_TEXTURE_MAG_FILTER :: GLenum where "GL_TEXTURE_MAG_FILTER = 0x2800"
definition GL_TEXTURE_MIN_FILTER :: GLenum where "GL_TEXTURE_MIN_FILTER = 0x2801"
definition GL_LINEAR :: GLenum where "GL_LINEAR = 0x2601"
definition GL_LINEAR_MIPMAP_LINEAR :: GLenum where "GL_LINEAR_MIPMAP_LINEAR = 0x2703"

section \<open>Data model\<close>

text \<open>
  \<^verbatim>\<open>AHardwareBuffer_Desc\<close>: the two fields the source reads.
\<close>

record AHardwareBuffer_Desc =
  format :: "32 word"
  usage :: "64 word"

text \<open>
  \<^verbatim>\<open>OpenGLPlatform::ExternalTexture\<close>: a texture name and its sampling target.
\<close>

record ExternalTexture =
  target :: GLenum
  id_texture :: GLuint

text \<open>
  A release callback is a function pointer. The producer's callbacks are opaque and are
  told apart by a number; the lambda of \<^verbatim>\<open>transformAcquiredImage\<close> is the one
  callback of this translation unit. A null function pointer is \<open>None\<close>.
\<close>

datatype callback_fn = ProducerCallback nat | PatchedCallback

record AcquiredImage =
  image_ptr :: ptr
  callback :: "callback_fn option"
  userData :: ptr
  handler :: ptr

text \<open>The value-initialised \<^verbatim>\<open>AcquiredImage{}\<close> that a failed transform returns.\<close>

definition AcquiredImage_empty :: AcquiredImage where
  "AcquiredImage_empty = \<lparr>image_ptr = 0, callback = None, userData = 0, handler = 0\<rparr>"

text \<open>The local \<^verbatim>\<open>struct Closure\<close> of \<^verbatim>\<open>transformAcquiredImage\<close>.\<close>

record Closure =
  acquiredImage :: AcquiredImage
  display :: ptr

text \<open>
  What a \<^verbatim>\<open>slog\<close> line streams: literal text and numbers.
\<close>

datatype piece = Text string | Number nat

text \<open>
  Every call that leaves the translation unit is recorded, in order, with its arguments
  (and its result where the source uses it).
\<close>

datatype event =
    Slog_i "piece list"
  | Slog_e "piece list"
  | New_ExternalTexture ptr
  | Delete_ExternalTexture ptr
  | New_Closure ptr
  | Delete_Closure ptr
  | Call_AHardwareBuffer_describe ptr
  | Call_eglGetNativeClientBufferANDROID ptr
  | Call_eglCreateImageKHR ptr ptr EGLint ptr "EGLint list"
  | Call_eglDestroyImageKHR ptr ptr
  | Call_glGenTextures GLuint
  | Call_glActiveTexture GLenum
  | Call_glBindTexture GLenum GLuint
  | Call_glGetError
  | Call_glDeleteTextures GLuint
  | Call_glEGLImageTargetTexture2DOES GLenum ptr
  | Call_glTexParameteri GLenum GLenum GLenum
  | Call_glGenerateMipmap GLenum
  | Invoke_callback callback_fn ptr ptr
  | Call_updateTargetWorkDuration int64_t
  | Call_reportActualWorkDuration int64_t
  | Call_PlatformEGL_beginFrame int64_t int64_t "32 word"
  | Call_PlatformEGL_preCommit

text \<open>
  The state the functions read and write: the members of the platform object, the two
  kinds of heap records this file allocates, the driver objects that are alive, and the
  trace of calls.
\<close>

record state =
  mEGLDisplay :: ptr
  mPerformanceHintSession_isValid :: bool
  mStartTimeOfActualWork :: int64_t
  closures :: "ptr \<rightharpoonup> Closure"
  externalTextures :: "ptr \<rightharpoonup> ExternalTexture"
  eglImages :: "ptr set"
  glTextures :: "GLuint set"
  trace :: "event list"

text \<open>
  The answers of the driver, the allocator, the OS and the clock are not decided by this
  file: they are parameters. \<open>glGetError env n\<close> is what the \<open>n\<close>-th call of
  \<^verbatim>\<open>glGetError\<close> inside one \<^verbatim>\<open>createExternalImageTexture\<close> returns;
  \<open>new_ExternalTexture\<close> and \<open>new_Closure\<close> are the addresses that
  \<^verbatim>\<open>new(std::nothrow)\<close> returns (\<open>0\<close> when it fails); \<open>device_api_level\<close> is
  what \<^verbatim>\<open>__builtin_available(android N, *)\<close> compares with.

  \<open>eglGetNativeClientBufferANDROID\<close> is the global function pointer of line 73. It
  starts null, \<^verbatim>\<open>createDriver\<close> stores in it what \<^verbatim>\<open>eglGetProcAddress\<close> returns
  (lines 171 and 172) without a check, and lines 244 and 336 call through it without a
  check: \<open>None\<close> is the null pointer, \<open>Some f\<close> the resolved entry point. The
  other two EGL extension entry points are declared \<^verbatim>\<open>extern\<close> and set outside
  this translation unit; they are taken as resolved.

  \<open>Config_default\<close> is the content of a default-constructed
  \<^verbatim>\<open>PlatformEGL::Config\<close>, before the sentinel. The class is declared in
  \<^verbatim>\<open>PlatformEGL.h\<close>, which is not among the sources, so what its default
  constructor puts in the list is a parameter as well.
\<close>

record env =
  eglGetNativeClientBufferANDROID :: "(ptr \<Rightarrow> ptr) option"
  AHardwareBuffer_describe :: "ptr \<Rightarrow> AHardwareBuffer_Desc"
  eglGetCurrentDisplay :: ptr
  eglCreateImageKHR :: "ptr \<Rightarrow> ptr \<Rightarrow> EGLint list \<Rightarrow> ptr"
  eglDestroyImageKHR :: "ptr \<Rightarrow> ptr \<Rightarrow> bool"
  glGenTextures :: GLuint
  glGetError :: "nat \<Rightarrow> GLenum"
  new_ExternalTexture :: ptr
  new_Closure :: ptr
  device_api_level :: nat
  clock_now :: int64_t
  Config_default :: Config

text \<open>
  Two things the source does without a check end the process instead of returning: a read
  through a null or dangling closure pointer, and a call through a null function
  pointer. A function that can do either returns a fault or its result, next to the
  state at that point.
\<close>

datatype fault = InvalidClosurePointer | NullFunctionPointer

definition emit :: "event \<Rightarrow> state \<Rightarrow> state" where
  "emit e s = s\<lparr>trace := trace s @ [e]\<rparr>"

section \<open>Format classifier\<close>

text \<open>
  Lines 224 to 240: \<^verbatim>\<open>isExternalFormat\<close> starts \<^verbatim>\<open>true\<close> and the switch clears
  it on twelve case labels; there is no default label.
\<close>

definition isExternalFormat :: "32 word \<Rightarrow> bool" where
  "isExternalFormat fmt =
     (if fmt = AHARDWAREBUFFER_FORMAT_R8G8B8A8_UNORM
       \<or> fmt = AHARDWAREBUFFER_FORMAT_R8G8B8X8_UNORM
       \<or> fmt = AHARDWAREBUFFER_FORMAT_R8G8B8_UNORM
       \<or> fmt = AHARDWAREBUFFER_FORMAT_R5G6B5_UNORM
       \<or> fmt = AHARDWAREBUFFER_FORMAT_R16G16B16A16_FLOAT
       \<or> fmt = AHARDWAREBUFFER_FORMAT_R10G10B10A2_UNORM
       \<or> fmt = AHARDWAREBUFFER_FORMAT_D16_UNORM
       \<or> fmt = AHARDWAREBUFFER_FORMAT_D24_UNORM
       \<or> fmt = AHARDWAREBUFFER_FORMAT_D24_UNORM_S8_UINT
       \<or> fmt = AHARDWAREBUFFER_FORMAT_D32_FLOAT
       \<or> fmt = AHARDWAREBUFFER_FORMAT_D32_FLOAT_S8_UINT
       \<or> fmt = AHARDWAREBUFFER_FORMAT_S8_UINT
      then False else True)"

text \<open>Line 275: the sampling target chosen from the classification.\<close>

definition texture_target :: "bool \<Rightarrow> GLenum" where
  "texture_target external = (if external then GL_TEXTURE_EXTERNAL_OES else GL_TEXTURE_2D)"

section \<open>Calls into the driver and the allocator\<close>

text \<open>
  Each helper is one call of the source: it records the call and applies its effect on
  the live driver objects and on the heap. \<^verbatim>\<open>eglCreateImageKHR\<close> adds an image
  unless it answers \<^verbatim>\<open>EGL_NO_IMAGE_KHR\<close>; \<^verbatim>\<open>eglDestroyImageKHR\<close> removes the
  image when it answers \<^verbatim>\<open>EGL_TRUE\<close>. The call through
  \<^verbatim>\<open>eglGetNativeClientBufferANDROID\<close> is a fault when the pointer is null.
\<close>

definition slog_i :: "piece list \<Rightarrow> state \<Rightarrow> state" where
  "slog_i msg s = emit (Slog_i msg) s"

definition slog_e :: "piece list \<Rightarrow> state \<Rightarrow> state" where
  "slog_e msg s = emit (Slog_e msg) s"

definition call_eglGetNativeClientBufferANDROID ::
    "env \<Rightarrow> ptr \<Rightarrow> state \<Rightarrow> (fault + ptr) \<times> state" where
  "call_eglGetNativeClientBufferANDROID env buffer s =
     (case eglGetNativeClientBufferANDROID env of
        None \<Rightarrow> (Inl NullFunctionPointer, s)
      | Some f \<Rightarrow> (Inr (f buffer), emit (Call_eglGetNativeClientBufferANDROID buffer) s))"

definition call_AHardwareBuffer_describe ::
    "env \<Rightarrow> ptr \<Rightarrow> state \<Rightarrow> AHardwareBuffer_Desc \<times> state" where
  "call_AHardwareBuffer_describe env buffer s =
     (AHardwareBuffer_describe env buffer, emit (Call_AHardwareBuffer_describe buffer) s)"

definition call_eglCreateImageKHR ::
    "env \<Rightarrow> ptr \<Rightarrow> ptr \<Rightarrow> EGLint \<Rightarrow> ptr \<Rightarrow> EGLint list \<Rightarrow> state \<Rightarrow> ptr \<times> state" where
  "call_eglCreateImageKHR env dpy ctx tgt buffer attrib_list s =
     (let img = eglCreateImageKHR env dpy buffer attrib_list;
          s1 = emit (Call_eglCreateImageKHR dpy ctx tgt buffer attrib_list) s
      in (img, if img = EGL_NO_IMAGE_KHR then s1
               else s1\<lparr>eglImages := insert img (eglImages s1)\<rparr>))"

definition call_eglDestroyImageKHR :: "env \<Rightarrow> ptr \<Rightarrow> ptr \<Rightarrow> state \<Rightarrow> bool \<times> state" where
  "call_eglDestroyImageKHR env dpy img s =
     (let ok = eglDestroyImageKHR env dpy img;
          s1 = emit (Call_eglDestroyImageKHR dpy img) s
      in (ok, if ok then s1\<lparr>eglImages := eglImages s1 - {img}\<rparr> else s1))"

definition call_glGenTextures :: "env \<Rightarrow> state \<Rightarrow> GLuint \<times> state" where
  "call_glGenTextures env s =
     (let name = glGenTextures env;
          s1 = emit (Call_glGenTextures name) s
      in (name, s1\<lparr>glTextures := insert name (glTextures s1)\<rparr>))"

definition call_glDeleteTextures :: "GLuint \<Rightarrow> state \<Rightarrow> state" where
  "call_glDeleteTextures name s =
     (let s1 = emit (Call_glDeleteTextures name) s
      in s1\<lparr>glTextures := glTextures s1 - {name}\<rparr>)"

definition call_glGetError :: "env \<Rightarrow> nat \<Rightarrow> state \<Rightarrow> GLenum \<times> state" where
  "call_glGetError env n s = (glGetError env n, emit Call_glGetError s)"

definition new_ExternalTexture_nothrow :: "env \<Rightarrow> state \<Rightarrow> ptr \<times> state" where
  "new_ExternalTexture_nothrow env s =
     (let p = new_ExternalTexture env;
          s1 = emit (New_ExternalTexture p) s
      in (p, if p = 0 then s1
             else s1\<lparr>externalTextures :=
                        (externalTextures s1)(p \<mapsto> \<lparr>target = 0, id_texture = 0\<rparr>)\<rparr>))"

definition delete_ExternalTexture :: "ptr \<Rightarrow> state \<Rightarrow> state" where
  "delete_ExternalTexture p s =
     (let s1 = emit (Delete_ExternalTexture p) s
      in s1\<lparr>externalTextures := (externalTextures s1)(p := None)\<rparr>)"

definition set_id :: "ptr \<Rightarrow> GLuint \<Rightarrow> state \<Rightarrow> state" where
  "set_id p name s =
     (case externalTextures s p of
        None \<Rightarrow> s
      | Some t \<Rightarrow> s\<lparr>externalTextures := (externalTextures s)(p \<mapsto> t\<lparr>id_texture := name\<rparr>)\<rparr>)"

definition set_target :: "ptr \<Rightarrow> GLenum \<Rightarrow> state \<Rightarrow> state" where
  "set_target p tgt s =
     (case externalTextures s p of
        None \<Rightarrow> s
      | Some t \<Rightarrow> s\<lparr>externalTextures := (externalTextures s)(p \<mapsto> t\<lparr>target := tgt\<rparr>)\<rparr>)"

definition new_Closure_nothrow :: "env \<Rightarrow> AcquiredImage \<Rightarrow> ptr \<Rightarrow> state \<Rightarrow> ptr \<times> state" where
  "new_Closure_nothrow env a dpy s =
     (let p = new_Closure env;
          s1 = emit (New_Closure p) s
      in (p, if p = 0 then s1
             else s1\<lparr>closures := (closures s1)(p \<mapsto> \<lparr>acquiredImage = a, display = dpy\<rparr>)\<rparr>))"

definition delete_Closure :: "ptr \<Rightarrow> state \<Rightarrow> state" where
  "delete_Closure p s =
     (let s1 = emit (Delete_Closure p) s
      in s1\<lparr>closures := (closures s1)(p := None)\<rparr>)"

section \<open>The EGL attribute list\<close>

text \<open>
  Modelled from the spec: \<^verbatim>\<open>PlatformEGL::Config\<close> is declared in
  \<^verbatim>\<open>PlatformEGL.h\<close> and implemented in \<^verbatim>\<open>PlatformEGL.cpp\<close>, neither of which
  is among the sources. The spec (section 6) describes the attribute list as ordered
  key/value pairs terminated by a sentinel: a \<open>Config\<close> is the list of its pairs,
  \<^verbatim>\<open>operator[]\<close> assigns the value of a key and appends the key when it is absent,
  and \<^verbatim>\<open>data()\<close> is the flat array of the pairs followed by the
  \<^verbatim>\<open>EGL_NONE\<close> sentinel pair.
\<close>

text \<open>
  Modelled from the spec: \<^verbatim>\<open>PlatformEGL::Config::operator[]\<close> followed by an
  assignment (not among the sources); the pairs stay ordered, a new key goes last.
\<close>

fun Config_assign :: "Config \<Rightarrow> EGLint \<Rightarrow> EGLint \<Rightarrow> Config" where
  "Config_assign [] name v = [(name, v)]"
| "Config_assign ((k, w) # rest) name v =
     (if k = name then (k, v) # rest else (k, w) # Config_assign rest name v)"

text \<open>
  Modelled from the spec: \<^verbatim>\<open>PlatformEGL::Config::data()\<close> (not among the sources);
  the key/value pairs in order, terminated by the sentinel.
\<close>

fun Config_data :: "Config \<Rightarrow> EGLint list" where
  "Config_data [] = [EGL_NONE, EGL_NONE]"
| "Config_data ((k, v) # rest) = k # v # Config_data rest"

text \<open>
  How EGL reads an attribute list: name/value pairs up to the first \<^verbatim>\<open>EGL_NONE\<close>.
  \<open>attrib_value attrs name\<close> is the value the list gives to \<open>name\<close>, if any.
\<close>

fun attrib_value :: "EGLint list \<Rightarrow> EGLint \<Rightarrow> EGLint option" where
  "attrib_value (k # v # rest) name =
     (if k = EGL_NONE then None
      else if k = name then Some v
      else attrib_value rest name)"
| "attrib_value _ name = None"

text \<open>
  Lines 342 to 352 of \<^verbatim>\<open>transformAcquiredImage\<close>: the attributes start as a
  default-constructed \<open>Config\<close>; the protected-content pair is added inside
  \<^verbatim>\<open>__builtin_available(android 26, *)\<close> when the usage flags carry the bit.
\<close>

definition builtin_available_android :: "env \<Rightarrow> nat \<Rightarrow> bool" where
  "builtin_available_android env n = (n \<le> device_api_level env)"

definition transform_attributes :: "env \<Rightarrow> ptr \<Rightarrow> state \<Rightarrow> Config \<times> state" where
  "transform_attributes env pHardwareBuffer s =
     (let attributes = Config_default env
      in if builtin_available_android env 26 then
           (let (desc, s1) = call_AHardwareBuffer_describe env pHardwareBuffer s;
                isProtectedContent =
                  (usage desc AND AHARDWAREBUFFER_USAGE_PROTECTED_CONTENT \<noteq> 0)
            in if isProtectedContent
               then (Config_assign attributes EGL_PROTECTED_CONTENT_EXT EGL_TRUE, s1)
               else (attributes, s1))
         else (attributes, s))"

text \<open>
  Lines 246 to 263 of \<^verbatim>\<open>createExternalImageTexture\<close>: a seven-slot array that
  starts with the image-preserved pair; \<^verbatim>\<open>isSrgbTransfer\<close> is the constant
  \<^verbatim>\<open>false\<close>, and the protected-content block is commented out.
\<close>

definition imageAttrs :: "EGLint list" where
  "imageAttrs =
     (let attrs = [EGL_IMAGE_PRESERVED_KHR, EGL_TRUE,
                   EGL_NONE, EGL_NONE, EGL_NONE, EGL_NONE, EGL_NONE];
          attrIndex = (2::nat);
          isSrgbTransfer = False
      in if isSrgbTransfer
         then attrs[attrIndex := EGL_GL_COLORSPACE, attrIndex + 1 := EGL_GL_COLORSPACE_SRGB]
         else attrs)"

section \<open>createExternalImageTexture\<close>

text \<open>
  Lines 207 to 306. The result is the pointer returned (\<open>0\<close> for \<^verbatim>\<open>nullptr\<close>),
  or the fault of line 244, and the state after the call. Only the first
  \<^verbatim>\<open>glGetError\<close> check leaves the function; the two later checks write a log line
  and go on.
\<close>

definition createExternalImageTexture ::
    "env \<Rightarrow> ptr \<Rightarrow> state \<Rightarrow> (fault + ptr) \<times> state" where
  "createExternalImageTexture env hardware_buffer s0 =
     (let s1 = slog_i [Text ''mExternalBufferPlatformEGLAndroid''] s0;
          (outTexture, s2) = new_ExternalTexture_nothrow env s1
      in if outTexture = 0 then
           (Inr 0, slog_e [Text ''mExternalBufferPlatformEGLAndroid Failed to allocate ExternalTexture''] s2)
         else
           let hardwareBuffer = hardware_buffer;
               (hardware_buffer_description, s3) =
                  call_AHardwareBuffer_describe env hardwareBuffer s2;
               s4 = slog_i [Text ''mExternalBufferPlatformEGLAndroid hb format '',
                            Number (unat (format hardware_buffer_description))] s3;
               external = isExternalFormat (format hardware_buffer_description);
               s5 = slog_i [Text ''mExternalBufferPlatformEGLAndroid Texture target is '',
                            Text (if external then ''GL_TEXTURE_EXTERNAL_OES''
                                  else ''GL_TEXTURE_2D'')] s4
           in (case call_eglGetNativeClientBufferANDROID env hardwareBuffer s5 of
                 (Inl crash, s6) \<Rightarrow> (Inl crash, s6)
               | (Inr clientBuffer, s6) \<Rightarrow>
                 let (eglImage, s7) =
                        call_eglCreateImageKHR env (eglGetCurrentDisplay env) EGL_NO_CONTEXT
                          EGL_NATIVE_BUFFER_ANDROID clientBuffer imageAttrs s6
                 in if eglImage = EGL_NO_IMAGE_KHR then
                      (Inr 0, delete_ExternalTexture outTexture
                            (slog_e [Text ''mExternalBufferPlatformEGLAndroid Failed to create EGL image''] s7))
                    else
                      let (name, s8) = call_glGenTextures env s7;
                          s9 = set_id outTexture name s8;
                          s10 = emit (Call_glActiveTexture GL_TEXTURE0) s9;
                          tgt = texture_target external;
                          s11 = emit (Call_glBindTexture tgt name) s10;
                          (error1, s12) = call_glGetError env 0 s11
                      in if error1 \<noteq> GL_NO_ERROR then
                           (let s13 = slog_e [Text ''mExternalBufferPlatformEGLAndroid Error after glBindTexture: '',
                                              Number (unat error1)] s12;
                                s14 = call_glDeleteTextures name s13;
                                (ok, s15) = call_eglDestroyImageKHR env (eglGetCurrentDisplay env) eglImage s14
                            in (Inr 0, delete_ExternalTexture outTexture s15))
                         else
                           let s13 = emit (Call_glEGLImageTargetTexture2DOES tgt eglImage) s12;
                               (error2, s14) = call_glGetError env 1 s13;
                               s15 = (if error2 \<noteq> GL_NO_ERROR
                                      then slog_e [Text ''mExternalBufferPlatformEGLAndroid Error after glEGLImageTargetTexture2DOES: '',
                                                   Number (unat error2)] s14
                                      else s14);
                               s16 = (if \<not> external then
                                        (let t1 = emit (Call_glTexParameteri GL_TEXTURE_2D
                                                          GL_TEXTURE_MIN_FILTER GL_LINEAR_MIPMAP_LINEAR) s15;
                                             t2 = emit (Call_glTexParameteri GL_TEXTURE_2D
                                                          GL_TEXTURE_MAG_FILTER GL_LINEAR) t1;
                                             t3 = emit (Call_glGenerateMipmap GL_TEXTURE_2D) t2;
                                             (error3, t4) = call_glGetError env 2 t3
                                         in if error3 \<noteq> GL_NO_ERROR
                                            then slog_e [Text ''mExternalBufferPlatformEGLAndroid Error after mipmap generation: '',
                                                         Number (unat error3)] t4
                                            else t4)
                                      else s15);
                               s17 = set_target outTexture tgt s16;
                               s18 = slog_i [Text ''mExternalBufferPlatformEGLAndroid Successfully created external image texture with ID: '',
                                             Number (unat name)] s17
                           in (Inr outTexture, s18)))"

section \<open>transformAcquiredImage and its release callback\<close>

text \<open>
  Lines 369 to 376, the lambda \<^verbatim>\<open>patchedCallback\<close>. It reads the closure through
  \<^verbatim>\<open>userdata\<close> without a check, and calls the stored callback without a check: a
  null or dangling \<^verbatim>\<open>userdata\<close> and a null stored callback are faults.
\<close>

definition patchedCallback :: "env \<Rightarrow> ptr \<Rightarrow> ptr \<Rightarrow> state \<Rightarrow> fault + state" where
  "patchedCallback env img userdata s0 =
     (case (if userdata = 0 then None else closures s0 userdata) of
        None \<Rightarrow> Inl InvalidClosurePointer
      | Some closure \<Rightarrow>
          let (ok, s1) = call_eglDestroyImageKHR env (display closure) img s0;
              s2 = (if \<not> ok then slog_e [Text ''eglDestroyImageKHR failed.''] s1 else s1)
          in (case callback (acquiredImage closure) of
                None \<Rightarrow> Inl NullFunctionPointer
              | Some f \<Rightarrow>
                  (let s3 = emit (Invoke_callback f (image_ptr (acquiredImage closure))
                                    (userData (acquiredImage closure))) s2
                   in Inr (delete_Closure userdata s3))))"

text \<open>
  Lines 332 to 379. The call of line 336 is a fault when the entry point is null. The
  result of \<^verbatim>\<open>new(std::nothrow) Closure\<close> goes into the returned
  \<^verbatim>\<open>AcquiredImage\<close> as it is.
\<close>

definition transformAcquiredImage ::
    "env \<Rightarrow> AcquiredImage \<Rightarrow> state \<Rightarrow> (fault + AcquiredImage) \<times> state" where
  "transformAcquiredImage env source s0 =
     (let pHardwareBuffer = image_ptr source
      in case call_eglGetNativeClientBufferANDROID env pHardwareBuffer s0 of
           (Inl crash, s1) \<Rightarrow> (Inl crash, s1)
         | (Inr clientBuffer, s1) \<Rightarrow>
             if clientBuffer = 0 then
                  (Inr AcquiredImage_empty,
                   slog_e [Text ''Unable to get EGLClientBuffer from AHardwareBuffer.''] s1)
                else
                  let (attributes, s2) = transform_attributes env pHardwareBuffer s1;
                      (eglImage, s3) =
                         call_eglCreateImageKHR env (mEGLDisplay s2) EGL_NO_CONTEXT
                           EGL_NATIVE_BUFFER_ANDROID clientBuffer (Config_data attributes) s2
                  in if eglImage = EGL_NO_IMAGE_KHR then
                       (Inr AcquiredImage_empty,
                        slog_e [Text ''eglCreateImageKHR returned no image.''] s3)
                     else
                       let (closure, s4) = new_Closure_nothrow env source (mEGLDisplay s3) s3
                       in (Inr \<lparr>image_ptr = eglImage, callback = Some PatchedCallback,
                                userData = closure, handler = handler source\<rparr>, s4))"

section \<open>Frame pacing\<close>

text \<open>
  Lines 136 to 158. \<^verbatim>\<open>refreshIntervalNs <= 0\<close> compares signed 64-bit values; the
  clock's time points count nanoseconds in 64 bits, and their difference wraps.
  \<^verbatim>\<open>PlatformEGL::beginFrame\<close> and \<^verbatim>\<open>PlatformEGL::preCommit\<close> belong to the base
  class and are recorded as calls.
\<close>

definition beginFrame :: "int64_t \<Rightarrow> int64_t \<Rightarrow> 32 word \<Rightarrow> state \<Rightarrow> state" where
  "beginFrame monotonic_clock_ns refreshIntervalNs frameId s =
     (if mPerformanceHintSession_isValid s then
        (let refreshIntervalNs1 =
               (if sint refreshIntervalNs \<le> 0 then 16666667 else refreshIntervalNs);
             s1 = s\<lparr>mStartTimeOfActualWork := monotonic_clock_ns\<rparr>;
             s2 = emit (Call_updateTargetWorkDuration refreshIntervalNs1) s1
         in emit (Call_PlatformEGL_beginFrame monotonic_clock_ns refreshIntervalNs1 frameId) s2)
      else emit (Call_PlatformEGL_beginFrame monotonic_clock_ns refreshIntervalNs frameId) s)"

definition preCommit :: "env \<Rightarrow> state \<Rightarrow> state" where
  "preCommit env s =
     (if mPerformanceHintSession_isValid s then
        (let actualWorkDuration = clock_now env - mStartTimeOfActualWork s;
             s1 = emit (Call_reportActualWorkDuration actualWorkDuration) s
         in emit Call_PlatformEGL_preCommit s1)
      else emit Call_PlatformEGL_preCommit s)"

section \<open>Observing a call\<close>

text \<open>
  The events a call added to the trace, and three ways of looking at them: the attribute
  lists handed to \<^verbatim>\<open>eglCreateImageKHR\<close>, the filter-state and mip-generation
  calls, and the invocations of a release callback.
\<close>

definition events_since :: "state \<Rightarrow> state \<Rightarrow> event list" where
  "events_since s s' = drop (length (trace s)) (trace s')"

fun created_image_attribs :: "event list \<Rightarrow> EGLint list list" where
  "created_image_attribs [] = []"
| "created_image_attribs (Call_eglCreateImageKHR dpy ctx tgt buffer attrs # es) =
     attrs # created_image_attribs es"
| "created_image_attribs (e # es) = created_image_attribs es"

fun is_mip_or_filter_call :: "event \<Rightarrow> bool" where
  "is_mip_or_filter_call (Call_glTexParameteri tgt pname param) = True"
| "is_mip_or_filter_call (Call_glGenerateMipmap tgt) = True"
| "is_mip_or_filter_call e = False"

fun is_callback_invocation :: "event \<Rightarrow> bool" where
  "is_callback_invocation (Invoke_callback f img ud) = True"
| "is_callback_invocation e = False"

section \<open>Concrete scenarios\<close>

text \<open>
  A platform object with display \<open>9\<close>, nothing allocated and an empty trace; a driver
  with a resolved entry point that answers every call successfully, describes every
  buffer as \<^verbatim>\<open>R8G8B8A8_UNORM\<close> with the given usage flags, creates image \<open>7\<close> and
  texture name \<open>5\<close>, on API level 30, where a default-constructed \<open>Config\<close> has
  no pair; and a producer image with buffer \<open>1\<close>, callback number \<open>1\<close>, user data
  \<open>2\<close> and handler \<open>3\<close>.
\<close>

definition idle_state :: "bool \<Rightarrow> state" where
  "idle_state valid =
     \<lparr>mEGLDisplay = 9, mPerformanceHintSession_isValid = valid, mStartTimeOfActualWork = 0,
      closures = Map.empty, externalTextures = Map.empty, eglImages = {}, glTextures = {},
      trace = []\<rparr>"

definition good_driver :: "64 word \<Rightarrow> env" where
  "good_driver flags =
     \<lparr>eglGetNativeClientBufferANDROID = Some (\<lambda>b. b + 100),
      AHardwareBuffer_describe =
        (\<lambda>b. \<lparr>format = AHARDWAREBUFFER_FORMAT_R8G8B8A8_UNORM, usage = flags\<rparr>),
      eglGetCurrentDisplay = 9,
      eglCreateImageKHR = (\<lambda>dpy buffer attrs. 7),
      eglDestroyImageKHR = (\<lambda>dpy img. True),
      glGenTextures = 5,
      glGetError = (\<lambda>n. GL_NO_ERROR),
      new_ExternalTexture = 11,
      new_Closure = 12,
      device_api_level = 30,
      clock_now = 9000,
      Config_default = []\<rparr>"

definition producer_image :: AcquiredImage where
  "producer_image =
     \<lparr>image_ptr = 1, callback = Some (ProducerCallback 1), userData = 2, handler = 3\<rparr>"

text \<open>
  Three drivers that fail at one point each: the entry point
  \<^verbatim>\<open>eglGetNativeClientBufferANDROID\<close> is null, no image for any client buffer, and
  no memory for the closure.
\<close>

definition unresolved_driver :: env where
  "unresolved_driver = (good_driver 0)\<lparr>eglGetNativeClientBufferANDROID := None\<rparr>"

definition no_image_driver :: env where
  "no_image_driver =
     (good_driver 0)\<lparr>eglCreateImageKHR := (\<lambda>dpy buffer attrs. EGL_NO_IMAGE_KHR)\<rparr>"

definition no_closure_driver :: env where
  "no_closure_driver = (good_driver 0)\<lparr>new_Closure := 0\<rparr>"

section \<open>Shared lemmas\<close>

lemma emit_fields [simp]:
  "trace (emit e s) = trace s @ [e]"
  "eglImages (emit e s) = eglImages s"
  "glTextures (emit e s) = glTextures s"
  "closures (emit e s) = closures s"
  "externalTextures (emit e s) = externalTextures s"
  "mEGLDisplay (emit e s) = mEGLDisplay s"
  "mPerformanceHintSession_isValid (emit e s) = mPerformanceHintSession_isValid s"
  "mStartTimeOfActualWork (emit e s) = mStartTimeOfActualWork s"
  by (simp_all add: emit_def)

lemma slog_fields [simp]:
  "trace (slog_i m s) = trace s @ [Slog_i m]"
  "trace (slog_e m s) = trace s @ [Slog_e m]"
  "eglImages (slog_i m s) = eglImages s"
  "eglImages (slog_e m s) = eglImages s"
  "glTextures (slog_i m s) = glTextures s"
  "glTextures (slog_e m s) = glTextures s"
  "closures (slog_i m s) = closures s"
  "closures (slog_e m s) = closures s"
  "externalTextures (slog_i m s) = externalTextures s"
  "externalTextures (slog_e m s) = externalTextures s"
  "mEGLDisplay (slog_i m s) = mEGLDisplay s"
  "mEGLDisplay (slog_e m s) = mEGLDisplay s"
  by (simp_all add: slog_i_def slog_e_def)

lemma new_ExternalTexture_nothrow_fields [simp]:
  "fst (new_ExternalTexture_nothrow env s) = new_ExternalTexture env"
  "trace (snd (new_ExternalTexture_nothrow env s)) =
     trace s @ [New_ExternalTexture (new_ExternalTexture env)]"
  "eglImages (snd (new_ExternalTexture_nothrow env s)) = eglImages s"
  "glTextures (snd (new_ExternalTexture_nothrow env s)) = glTextures s"
  "closures (snd (new_ExternalTexture_nothrow env s)) = closures s"
  "externalTextures (snd (new_ExternalTexture_nothrow env s)) =
     (if new_ExternalTexture env = 0 then externalTextures s
      else (externalTextures s)(new_ExternalTexture env \<mapsto> \<lparr>target = 0, id_texture = 0\<rparr>))"
  by (simp_all add: new_ExternalTexture_nothrow_def Let_def)

lemma delete_ExternalTexture_fields [simp]:
  "trace (delete_ExternalTexture p s) = trace s @ [Delete_ExternalTexture p]"
  "eglImages (delete_ExternalTexture p s) = eglImages s"
  "glTextures (delete_ExternalTexture p s) = glTextures s"
  "closures (delete_ExternalTexture p s) = closures s"
  "externalTextures (delete_ExternalTexture p s) = (externalTextures s)(p := None)"
  by (simp_all add: delete_ExternalTexture_def Let_def)

lemma set_id_fields [simp]:
  "trace (set_id p n s) = trace s"
  "eglImages (set_id p n s) = eglImages s"
  "glTextures (set_id p n s) = glTextures s"
  "closures (set_id p n s) = closures s"
  "externalTextures (set_id p n s) =
     (case externalTextures s p of None \<Rightarrow> externalTextures s
      | Some t \<Rightarrow> (externalTextures s)(p \<mapsto> t\<lparr>id_texture := n\<rparr>))"
  by (simp_all add: set_id_def split: option.splits)

lemma set_target_fields [simp]:
  "trace (set_target p n s) = trace s"
  "eglImages (set_target p n s) = eglImages s"
  "glTextures (set_target p n s) = glTextures s"
  "closures (set_target p n s) = closures s"
  "externalTextures (set_target p n s) =
     (case externalTextures s p of None \<Rightarrow> externalTextures s
      | Some t \<Rightarrow> (externalTextures s)(p \<mapsto> t\<lparr>target := n\<rparr>))"
  by (simp_all add: set_target_def split: option.splits)

lemma call_AHardwareBuffer_describe_fields [simp]:
  "fst (call_AHardwareBuffer_describe env b s) = AHardwareBuffer_describe env b"
  "snd (call_AHardwareBuffer_describe env b s) = emit (Call_AHardwareBuffer_describe b) s"
  by (simp_all add: call_AHardwareBuffer_describe_def)

lemma call_eglGetNativeClientBufferANDROID_resolved:
  "eglGetNativeClientBufferANDROID env = Some g \<Longrightarrow>
   call_eglGetNativeClientBufferANDROID env b s =
     (Inr (g b), emit (Call_eglGetNativeClientBufferANDROID b) s)"
  by (simp add: call_eglGetNativeClientBufferANDROID_def)

lemma call_eglGetNativeClientBufferANDROID_unresolved:
  "eglGetNativeClientBufferANDROID env = None \<Longrightarrow>
   call_eglGetNativeClientBufferANDROID env b s = (Inl NullFunctionPointer, s)"
  by (simp add: call_eglGetNativeClientBufferANDROID_def)

lemma call_glGetError_fields [simp]:
  "fst (call_glGetError env n s) = glGetError env n"
  "snd (call_glGetError env n s) = emit Call_glGetError s"
  by (simp_all add: call_glGetError_def)

lemma call_eglCreateImageKHR_fields [simp]:
  "fst (call_eglCreateImageKHR env dpy ctx tgt b attrs s) = eglCreateImageKHR env dpy b attrs"
  "trace (snd (call_eglCreateImageKHR env dpy ctx tgt b attrs s)) =
     trace s @ [Call_eglCreateImageKHR dpy ctx tgt b attrs]"
  "eglImages (snd (call_eglCreateImageKHR env dpy ctx tgt b attrs s)) =
     (if eglCreateImageKHR env dpy b attrs = EGL_NO_IMAGE_KHR then eglImages s
      else insert (eglCreateImageKHR env dpy b attrs) (eglImages s))"
  "glTextures (snd (call_eglCreateImageKHR env dpy ctx tgt b attrs s)) = glTextures s"
  "closures (snd (call_eglCreateImageKHR env dpy ctx tgt b attrs s)) = closures s"
  "externalTextures (snd (call_eglCreateImageKHR env dpy ctx tgt b attrs s)) = externalTextures s"
  "mEGLDisplay (snd (call_eglCreateImageKHR env dpy ctx tgt b attrs s)) = mEGLDisplay s"
  by (simp_all add: call_eglCreateImageKHR_def Let_def)

lemma call_eglDestroyImageKHR_fields [simp]:
  "fst (call_eglDestroyImageKHR env dpy img s) = eglDestroyImageKHR env dpy img"
  "trace (snd (call_eglDestroyImageKHR env dpy img s)) =
     trace s @ [Call_eglDestroyImageKHR dpy img]"
  "eglImages (snd (call_eglDestroyImageKHR env dpy img s)) =
     (if eglDestroyImageKHR env dpy img then eglImages s - {img} else eglImages s)"
  "glTextures (snd (call_eglDestroyImageKHR env dpy img s)) = glTextures s"
  "closures (snd (call_eglDestroyImageKHR env dpy img s)) = closures s"
  "externalTextures (snd (call_eglDestroyImageKHR env dpy img s)) = externalTextures s"
  by (simp_all add: call_eglDestroyImageKHR_def Let_def)

lemma call_glGenTextures_fields [simp]:
  "fst (call_glGenTextures env s) = glGenTextures env"
  "trace (snd (call_glGenTextures env s)) = trace s @ [Call_glGenTextures (glGenTextures env)]"
  "eglImages (snd (call_glGenTextures env s)) = eglImages s"
  "glTextures (snd (call_glGenTextures env s)) = insert (glGenTextures env) (glTextures s)"
  "closures (snd (call_glGenTextures env s)) = closures s"
  "externalTextures (snd (call_glGenTextures env s)) = externalTextures s"
  by (simp_all add: call_glGenTextures_def Let_def)

lemma call_glDeleteTextures_fields [simp]:
  "trace (call_glDeleteTextures n s) = trace s @ [Call_glDeleteTextures n]"
  "eglImages (call_glDeleteTextures n s) = eglImages s"
  "glTextures (call_glDeleteTextures n s) = glTextures s - {n}"
  "closures (call_glDeleteTextures n s) = closures s"
  "externalTextures (call_glDeleteTextures n s) = externalTextures s"
  by (simp_all add: call_glDeleteTextures_def Let_def)

section \<open>The paths of createExternalImageTexture\<close>

lemma createExternalImageTexture_alloc_failed:
  assumes "new_ExternalTexture env = 0"
  shows "createExternalImageTexture env hb s =
           (Inr 0, s\<lparr>trace := trace s @
                  [Slog_i [Text ''mExternalBufferPlatformEGLAndroid''],
                   New_ExternalTexture 0,
                   Slog_e [Text ''mExternalBufferPlatformEGLAndroid Failed to allocate ExternalTexture'']]\<rparr>)"
  using assms
  by (simp add: createExternalImageTexture_def Let_def split_def
      new_ExternalTexture_nothrow_def slog_i_def slog_e_def emit_def)

lemma createExternalImageTexture_success_trace:
  assumes "new_ExternalTexture env \<noteq> 0"
    and "eglGetNativeClientBufferANDROID env = Some g"
    and "eglCreateImageKHR env (eglGetCurrentDisplay env)
           (g hb) imageAttrs \<noteq> EGL_NO_IMAGE_KHR"
    and "glGetError env 0 = GL_NO_ERROR"
  shows "trace (snd (createExternalImageTexture env hb s)) =
     trace s @
     [Slog_i [Text ''mExternalBufferPlatformEGLAndroid''],
      New_ExternalTexture (new_ExternalTexture env),
      Call_AHardwareBuffer_describe hb,
      Slog_i [Text ''mExternalBufferPlatformEGLAndroid hb format '',
              Number (unat (format (AHardwareBuffer_describe env hb)))],
      Slog_i [Text ''mExternalBufferPlatformEGLAndroid Texture target is '',
              Text (if isExternalFormat (format (AHardwareBuffer_describe env hb))
                    then ''GL_TEXTURE_EXTERNAL_OES'' else ''GL_TEXTURE_2D'')],
      Call_eglGetNativeClientBufferANDROID hb,
      Call_eglCreateImageKHR (eglGetCurrentDisplay env) EGL_NO_CONTEXT EGL_NATIVE_BUFFER_ANDROID
        (g hb) imageAttrs,
      Call_glGenTextures (glGenTextures env),
      Call_glActiveTexture GL_TEXTURE0,
      Call_glBindTexture
        (texture_target (isExternalFormat (format (AHardwareBuffer_describe env hb))))
        (glGenTextures env),
      Call_glGetError,
      Call_glEGLImageTargetTexture2DOES
        (texture_target (isExternalFormat (format (AHardwareBuffer_describe env hb))))
        (eglCreateImageKHR env (eglGetCurrentDisplay env)
           (g hb) imageAttrs),
      Call_glGetError] @
     (if glGetError env 1 \<noteq> GL_NO_ERROR
      then [Slog_e [Text ''mExternalBufferPlatformEGLAndroid Error after glEGLImageTargetTexture2DOES: '',
                    Number (unat (glGetError env 1))]]
      else []) @
     (if \<not> isExternalFormat (format (AHardwareBuffer_describe env hb))
      then [Call_glTexParameteri GL_TEXTURE_2D GL_TEXTURE_MIN_FILTER GL_LINEAR_MIPMAP_LINEAR,
            Call_glTexParameteri GL_TEXTURE_2D GL_TEXTURE_MAG_FILTER GL_LINEAR,
            Call_glGenerateMipmap GL_TEXTURE_2D,
            Call_glGetError] @
           (if glGetError env 2 \<noteq> GL_NO_ERROR
            then [Slog_e [Text ''mExternalBufferPlatformEGLAndroid Error after mipmap generation: '',
                          Number (unat (glGetError env 2))]]
            else [])
      else []) @
     [Slog_i [Text ''mExternalBufferPlatformEGLAndroid Successfully created external image texture with ID: '',
              Number (unat (glGenTextures env))]]"
  using assms
  by (simp add: createExternalImageTexture_def Let_def split_def
      call_eglGetNativeClientBufferANDROID_resolved)

lemma createExternalImageTexture_no_image:
  assumes "new_ExternalTexture env \<noteq> 0"
    and "eglGetNativeClientBufferANDROID env = Some g"
    and "eglCreateImageKHR env (eglGetCurrentDisplay env)
           (g hb) imageAttrs = EGL_NO_IMAGE_KHR"
  shows "fst (createExternalImageTexture env hb s) = Inr 0"
    and "trace (snd (createExternalImageTexture env hb s)) =
     trace s @
     [Slog_i [Text ''mExternalBufferPlatformEGLAndroid''],
      New_ExternalTexture (new_ExternalTexture env),
      Call_AHardwareBuffer_describe hb,
      Slog_i [Text ''mExternalBufferPlatformEGLAndroid hb format '',
              Number (unat (format (AHardwareBuffer_describe env hb)))],
      Slog_i [Text ''mExternalBufferPlatformEGLAndroid Texture target is '',
              Text (if isExternalFormat (format (AHardwareBuffer_describe env hb))
                    then ''GL_TEXTURE_EXTERNAL_OES'' else ''GL_TEXTURE_2D'')],
      Call_eglGetNativeClientBufferANDROID hb,
      Call_eglCreateImageKHR (eglGetCurrentDisplay env) EGL_NO_CONTEXT EGL_NATIVE_BUFFER_ANDROID
        (g hb) imageAttrs,
      Slog_e [Text ''mExternalBufferPlatformEGLAndroid Failed to create EGL image''],
      Delete_ExternalTexture (new_ExternalTexture env)]"
    and "eglImages (snd (createExternalImageTexture env hb s)) = eglImages s"
    and "glTextures (snd (createExternalImageTexture env hb s)) = glTextures s"
    and "externalTextures (snd (createExternalImageTexture env hb s)) =
           (externalTextures s)(new_ExternalTexture env := None)"
  using assms
  by (simp_all add: createExternalImageTexture_def Let_def split_def
      call_eglGetNativeClientBufferANDROID_resolved)

lemma createExternalImageTexture_bind_failed:
  assumes "new_ExternalTexture env \<noteq> 0"
    and "eglGetNativeClientBufferANDROID env = Some g"
    and "eglCreateImageKHR env (eglGetCurrentDisplay env)
           (g hb) imageAttrs = img"
    and "img \<noteq> EGL_NO_IMAGE_KHR"
    and "glGetError env 0 \<noteq> GL_NO_ERROR"
  shows "fst (createExternalImageTexture env hb s) = Inr 0"
    and "trace (snd (createExternalImageTexture env hb s)) =
     trace s @
     [Slog_i [Text ''mExternalBufferPlatformEGLAndroid''],
      New_ExternalTexture (new_ExternalTexture env),
      Call_AHardwareBuffer_describe hb,
      Slog_i [Text ''mExternalBufferPlatformEGLAndroid hb format '',
              Number (unat (format (AHardwareBuffer_describe env hb)))],
      Slog_i [Text ''mExternalBufferPlatformEGLAndroid Texture target is '',
              Text (if isExternalFormat (format (AHardwareBuffer_describe env hb))
                    then ''GL_TEXTURE_EXTERNAL_OES'' else ''GL_TEXTURE_2D'')],
      Call_eglGetNativeClientBufferANDROID hb,
      Call_eglCreateImageKHR (eglGetCurrentDisplay env) EGL_NO_CONTEXT EGL_NATIVE_BUFFER_ANDROID
        (g hb) imageAttrs,
      Call_glGenTextures (glGenTextures env),
      Call_glActiveTexture GL_TEXTURE0,
      Call_glBindTexture
        (texture_target (isExternalFormat (format (AHardwareBuffer_describe env hb))))
        (glGenTextures env),
      Call_glGetError,
      Slog_e [Text ''mExternalBufferPlatformEGLAndroid Error after glBindTexture: '',
              Number (unat (glGetError env 0))],
      Call_glDeleteTextures (glGenTextures env),
      Call_eglDestroyImageKHR (eglGetCurrentDisplay env) img,
      Delete_ExternalTexture (new_ExternalTexture env)]"
    and "glTextures (snd (createExternalImageTexture env hb s)) =
           glTextures s - {glGenTextures env}"
    and "eglImages (snd (createExternalImageTexture env hb s)) =
           (if eglDestroyImageKHR env (eglGetCurrentDisplay env) img
            then eglImages s - {img} else insert img (eglImages s))"
    and "externalTextures (snd (createExternalImageTexture env hb s)) =
           (externalTextures s)(new_ExternalTexture env := None)"
  using assms
  by (auto simp add: createExternalImageTexture_def Let_def split_def
      call_eglGetNativeClientBufferANDROID_resolved split: option.splits)

lemma createExternalImageTexture_success_resources:
  assumes "new_ExternalTexture env \<noteq> 0"
    and "eglGetNativeClientBufferANDROID env = Some g"
    and "eglCreateImageKHR env (eglGetCurrentDisplay env)
           (g hb) imageAttrs = img"
    and "img \<noteq> EGL_NO_IMAGE_KHR"
    and "glGetError env 0 = GL_NO_ERROR"
  shows "fst (createExternalImageTexture env hb s) = Inr (new_ExternalTexture env)"
    and "glTextures (snd (createExternalImageTexture env hb s)) =
           insert (glGenTextures env) (glTextures s)"
    and "eglImages (snd (createExternalImageTexture env hb s)) = insert img (eglImages s)"
    and "externalTextures (snd (createExternalImageTexture env hb s)) (new_ExternalTexture env) =
           Some \<lparr>target = texture_target
                             (isExternalFormat (format (AHardwareBuffer_describe env hb))),
                 id_texture = glGenTextures env\<rparr>"
  using assms
  by (auto simp add: createExternalImageTexture_def Let_def split_def
      call_eglGetNativeClientBufferANDROID_resolved split: option.splits)

lemma createExternalImageTexture_unresolved:
  assumes "new_ExternalTexture env \<noteq> 0"
    and "eglGetNativeClientBufferANDROID env = None"
  shows "fst (createExternalImageTexture env hb s) = Inl NullFunctionPointer"
    and "trace (snd (createExternalImageTexture env hb s)) =
     trace s @
     [Slog_i [Text ''mExternalBufferPlatformEGLAndroid''],
      New_ExternalTexture (new_ExternalTexture env),
      Call_AHardwareBuffer_describe hb,
      Slog_i [Text ''mExternalBufferPlatformEGLAndroid hb format '',
              Number (unat (format (AHardwareBuffer_describe env hb)))],
      Slog_i [Text ''mExternalBufferPlatformEGLAndroid Texture target is '',
              Text (if isExternalFormat (format (AHardwareBuffer_describe env hb))
                    then ''GL_TEXTURE_EXTERNAL_OES'' else ''GL_TEXTURE_2D'')]]"
  using assms
  by (simp_all add: createExternalImageTexture_def Let_def split_def
      call_eglGetNativeClientBufferANDROID_unresolved)

lemma createExternalImageTexture_result:
  "fst (createExternalImageTexture env hb s) =
     (if new_ExternalTexture env = 0 then Inr 0
      else case eglGetNativeClientBufferANDROID env of
             None \<Rightarrow> Inl NullFunctionPointer
           | Some g \<Rightarrow>
               if eglCreateImageKHR env (eglGetCurrentDisplay env) (g hb) imageAttrs
                    = EGL_NO_IMAGE_KHR then Inr 0
               else if glGetError env 0 \<noteq> GL_NO_ERROR then Inr 0
               else Inr (new_ExternalTexture env))"
  by (cases "eglGetNativeClientBufferANDROID env")
     (simp_all add: createExternalImageTexture_def Let_def split_def
        call_eglGetNativeClientBufferANDROID_resolved
        call_eglGetNativeClientBufferANDROID_unresolved)

lemmas format_defs =
  AHARDWAREBUFFER_FORMAT_BLOB_def AHARDWAREBUFFER_FORMAT_Y8Cb8Cr8_420_def
  AHARDWAREBUFFER_FORMAT_R8G8B8A8_UNORM_def AHARDWAREBUFFER_FORMAT_R8G8B8X8_UNORM_def
  AHARDWAREBUFFER_FORMAT_R8G8B8_UNORM_def AHARDWAREBUFFER_FORMAT_R5G6B5_UNORM_def
  AHARDWAREBUFFER_FORMAT_R16G16B16A16_FLOAT_def AHARDWAREBUFFER_FORMAT_R10G10B10A2_UNORM_def
  AHARDWAREBUFFER_FORMAT_D16_UNORM_def AHARDWAREBUFFER_FORMAT_D24_UNORM_def
  AHARDWAREBUFFER_FORMAT_D24_UNORM_S8_UINT_def AHARDWAREBUFFER_FORMAT_D32_FLOAT_def
  AHARDWAREBUFFER_FORMAT_D32_FLOAT_S8_UINT_def AHARDWAREBUFFER_FORMAT_S8_UINT_def

lemma created_image_attribs_append:
  "created_image_attribs (xs @ ys) = created_image_attribs xs @ created_image_attribs ys"
  by (induction xs rule: created_image_attribs.induct) simp_all

section \<open>The paths of transformAcquiredImage\<close>

lemma transform_attributes_result:
  "fst (transform_attributes env b s) =
     (if 26 \<le> device_api_level env
         \<and> usage (AHardwareBuffer_describe env b) AND AHARDWAREBUFFER_USAGE_PROTECTED_CONTENT \<noteq> 0
      then Config_assign (Config_default env) EGL_PROTECTED_CONTENT_EXT EGL_TRUE
      else Config_default env)"
  "snd (transform_attributes env b s) =
     (if 26 \<le> device_api_level env then emit (Call_AHardwareBuffer_describe b) s else s)"
  by (simp_all add: transform_attributes_def builtin_available_android_def Let_def split_def)

lemma transform_attributes_state_free:
  "fst (transform_attributes env b s) = fst (transform_attributes env b s')"
  by (simp add: transform_attributes_result)

lemma transformAcquiredImage_unresolved:
  assumes "eglGetNativeClientBufferANDROID env = None"
  shows "transformAcquiredImage env source s = (Inl NullFunctionPointer, s)"
  using assms
  by (simp add: transformAcquiredImage_def call_eglGetNativeClientBufferANDROID_unresolved)

lemma transformAcquiredImage_no_client_buffer:
  assumes "eglGetNativeClientBufferANDROID env = Some g"
    and "g (image_ptr source) = 0"
  shows "transformAcquiredImage env source s =
           (Inr AcquiredImage_empty,
            s\<lparr>trace := trace s @
                 [Call_eglGetNativeClientBufferANDROID (image_ptr source),
                  Slog_e [Text ''Unable to get EGLClientBuffer from AHardwareBuffer.'']]\<rparr>)"
  using assms
  by (simp add: transformAcquiredImage_def call_eglGetNativeClientBufferANDROID_resolved
      slog_e_def emit_def)

lemma transformAcquiredImage_no_image:
  assumes "eglGetNativeClientBufferANDROID env = Some g"
    and "g (image_ptr source) \<noteq> 0"
    and "eglCreateImageKHR env (mEGLDisplay s) (g (image_ptr source))
           (Config_data (fst (transform_attributes env (image_ptr source) s))) = EGL_NO_IMAGE_KHR"
  shows "transformAcquiredImage env source s =
           (Inr AcquiredImage_empty,
            s\<lparr>trace := trace s @
                 Call_eglGetNativeClientBufferANDROID (image_ptr source) #
                 (if 26 \<le> device_api_level env
                  then [Call_AHardwareBuffer_describe (image_ptr source)] else []) @
                 [Call_eglCreateImageKHR (mEGLDisplay s) EGL_NO_CONTEXT EGL_NATIVE_BUFFER_ANDROID
                    (g (image_ptr source))
                    (Config_data (fst (transform_attributes env (image_ptr source) s))),
                  Slog_e [Text ''eglCreateImageKHR returned no image.'']]\<rparr>)"
proof -
  define a where "a = fst (transform_attributes env (image_ptr source) s)"
  have attrs: "fst (transform_attributes env (image_ptr source) s') = a" for s'
    unfolding a_def by (rule transform_attributes_state_free)
  show ?thesis
    using assms
    by (cases "26 \<le> device_api_level env")
       (simp_all add: transformAcquiredImage_def Let_def split_def attrs
          call_eglGetNativeClientBufferANDROID_resolved
          transform_attributes_result(2) call_eglCreateImageKHR_def slog_e_def emit_def)
qed

lemma transformAcquiredImage_success:
  assumes "eglGetNativeClientBufferANDROID env = Some g"
    and "g (image_ptr source) \<noteq> 0"
    and "eglCreateImageKHR env (mEGLDisplay s) (g (image_ptr source))
           (Config_data (fst (transform_attributes env (image_ptr source) s))) = img"
    and "img \<noteq> EGL_NO_IMAGE_KHR"
  shows "transformAcquiredImage env source s =
           (Inr \<lparr>image_ptr = img, callback = Some PatchedCallback,
                 userData = new_Closure env, handler = handler source\<rparr>,
            s\<lparr>closures :=
                 (if new_Closure env = 0 then closures s
                  else (closures s)(new_Closure env \<mapsto>
                         \<lparr>acquiredImage = source, display = mEGLDisplay s\<rparr>)),
              eglImages := insert img (eglImages s),
              trace := trace s @
                 Call_eglGetNativeClientBufferANDROID (image_ptr source) #
                 (if 26 \<le> device_api_level env
                  then [Call_AHardwareBuffer_describe (image_ptr source)] else []) @
                 [Call_eglCreateImageKHR (mEGLDisplay s) EGL_NO_CONTEXT EGL_NATIVE_BUFFER_ANDROID
                    (g (image_ptr source))
                    (Config_data (fst (transform_attributes env (image_ptr source) s))),
                  New_Closure (new_Closure env)]\<rparr>)"
proof -
  define a where "a = fst (transform_attributes env (image_ptr source) s)"
  have attrs: "fst (transform_attributes env (image_ptr source) s') = a" for s'
    unfolding a_def by (rule transform_attributes_state_free)
  show ?thesis
    using assms
    by (cases "26 \<le> device_api_level env")
       (auto simp add: transformAcquiredImage_def Let_def split_def attrs
          call_eglGetNativeClientBufferANDROID_resolved
          transform_attributes_result(2) call_eglCreateImageKHR_def new_Closure_nothrow_def
          emit_def)
qed

section \<open>Format classification\<close>

text \<open>
  Claim C3. The classifier answers "not external" (and the target is
  \<^verbatim>\<open>GL_TEXTURE_2D\<close>) exactly for the twelve formats of the switch: the RGBA, RGBX,
  RGB, RGB565, half-float RGBA, 10-10-10-2, depth and stencil formats. Every other 32-bit
  format value is external and gets \<^verbatim>\<open>GL_TEXTURE_EXTERNAL_OES\<close>.
\<close>

theorem format_classifier_allow_list:
  "(isExternalFormat fmt \<longleftrightarrow>
      fmt \<notin> {AHARDWAREBUFFER_FORMAT_R8G8B8A8_UNORM, AHARDWAREBUFFER_FORMAT_R8G8B8X8_UNORM,
              AHARDWAREBUFFER_FORMAT_R8G8B8_UNORM, AHARDWAREBUFFER_FORMAT_R5G6B5_UNORM,
              AHARDWAREBUFFER_FORMAT_R16G16B16A16_FLOAT, AHARDWAREBUFFER_FORMAT_R10G10B10A2_UNORM,
              AHARDWAREBUFFER_FORMAT_D16_UNORM, AHARDWAREBUFFER_FORMAT_D24_UNORM,
              AHARDWAREBUFFER_FORMAT_D24_UNORM_S8_UINT, AHARDWAREBUFFER_FORMAT_D32_FLOAT,
              AHARDWAREBUFFER_FORMAT_D32_FLOAT_S8_UINT, AHARDWAREBUFFER_FORMAT_S8_UINT})
   \<and> texture_target (isExternalFormat fmt) =
       (if fmt \<in> {AHARDWAREBUFFER_FORMAT_R8G8B8A8_UNORM, AHARDWAREBUFFER_FORMAT_R8G8B8X8_UNORM,
              AHARDWAREBUFFER_FORMAT_R8G8B8_UNORM, AHARDWAREBUFFER_FORMAT_R5G6B5_UNORM,
              AHARDWAREBUFFER_FORMAT_R16G16B16A16_FLOAT, AHARDWAREBUFFER_FORMAT_R10G10B10A2_UNORM,
              AHARDWAREBUFFER_FORMAT_D16_UNORM, AHARDWAREBUFFER_FORMAT_D24_UNORM,
              AHARDWAREBUFFER_FORMAT_D24_UNORM_S8_UINT, AHARDWAREBUFFER_FORMAT_D32_FLOAT,
              AHARDWAREBUFFER_FORMAT_D32_FLOAT_S8_UINT, AHARDWAREBUFFER_FORMAT_S8_UINT}
        then GL_TEXTURE_2D else GL_TEXTURE_EXTERNAL_OES)"
  by (simp add: isExternalFormat_def texture_target_def)

text \<open>
  Formats outside the switch are external: the blob format, planar YUV 4:2:0, the value
  zero and a vendor value.
\<close>

lemma unlisted_formats_are_external:
  "isExternalFormat AHARDWAREBUFFER_FORMAT_BLOB"
  "isExternalFormat AHARDWAREBUFFER_FORMAT_Y8Cb8Cr8_420"
  "isExternalFormat 0"
  "isExternalFormat 0x7FA30C06"
  by (simp_all add: isExternalFormat_def AHARDWAREBUFFER_FORMAT_BLOB_def
      AHARDWAREBUFFER_FORMAT_Y8Cb8Cr8_420_def
      AHARDWAREBUFFER_FORMAT_R8G8B8A8_UNORM_def AHARDWAREBUFFER_FORMAT_R8G8B8X8_UNORM_def
      AHARDWAREBUFFER_FORMAT_R8G8B8_UNORM_def AHARDWAREBUFFER_FORMAT_R5G6B5_UNORM_def
      AHARDWAREBUFFER_FORMAT_R16G16B16A16_FLOAT_def AHARDWAREBUFFER_FORMAT_R10G10B10A2_UNORM_def
      AHARDWAREBUFFER_FORMAT_D16_UNORM_def AHARDWAREBUFFER_FORMAT_D24_UNORM_def
      AHARDWAREBUFFER_FORMAT_D24_UNORM_S8_UINT_def AHARDWAREBUFFER_FORMAT_D32_FLOAT_def
      AHARDWAREBUFFER_FORMAT_D32_FLOAT_S8_UINT_def AHARDWAREBUFFER_FORMAT_S8_UINT_def)

section \<open>Frame pacing\<close>

text \<open>
  Claim C5. With a valid performance-hint session, \<^verbatim>\<open>beginFrame\<close> pushes exactly
  one target duration to the session: 16,666,667 ns when the supplied interval is zero or
  negative, and the supplied interval itself when it is positive.
\<close>

theorem beginFrame_target_duration:
  assumes "mPerformanceHintSession_isValid s"
  shows "trace (beginFrame monotonic_clock_ns refreshIntervalNs frameId s) =
           trace s @
           [Call_updateTargetWorkDuration
              (if sint refreshIntervalNs \<le> 0 then 16666667 else refreshIntervalNs),
            Call_PlatformEGL_beginFrame monotonic_clock_ns
              (if sint refreshIntervalNs \<le> 0 then 16666667 else refreshIntervalNs) frameId]"
  using assms by (simp add: beginFrame_def emit_def Let_def)

theorem beginFrame_target_duration_witness:
  "mPerformanceHintSession_isValid (idle_state True)
   \<and> trace (beginFrame 5000 (- 3) 1 (idle_state True)) =
       [Call_updateTargetWorkDuration 16666667, Call_PlatformEGL_beginFrame 5000 16666667 1]
   \<and> trace (beginFrame 5000 8333333 1 (idle_state True)) =
       [Call_updateTargetWorkDuration 8333333, Call_PlatformEGL_beginFrame 5000 8333333 1]"
  using beginFrame_target_duration [of "idle_state True" 5000 "- 3" 1]
        beginFrame_target_duration [of "idle_state True" 5000 8333333 1]
  by (simp add: idle_state_def)

text \<open>
  Claim C6. With an invalid performance-hint session, \<^verbatim>\<open>beginFrame\<close> and
  \<^verbatim>\<open>preCommit\<close> change nothing but the trace, and the only call each adds is the
  delegation to the base class: no target duration is pushed, no actual duration is
  reported, no error is logged. With a valid session, \<^verbatim>\<open>beginFrame\<close> records its
  clock argument as the start time and \<^verbatim>\<open>preCommit\<close> reports the clock's current
  time minus the recorded start time (a 64-bit difference) before it delegates.
\<close>

theorem frame_pacing_session_validity:
  "(\<not> mPerformanceHintSession_isValid s \<longrightarrow>
       beginFrame monotonic_clock_ns refreshIntervalNs frameId s =
         s\<lparr>trace := trace s @
               [Call_PlatformEGL_beginFrame monotonic_clock_ns refreshIntervalNs frameId]\<rparr>
     \<and> preCommit env s = s\<lparr>trace := trace s @ [Call_PlatformEGL_preCommit]\<rparr>)
   \<and> (mPerformanceHintSession_isValid s \<longrightarrow>
       mStartTimeOfActualWork (beginFrame monotonic_clock_ns refreshIntervalNs frameId s) =
         monotonic_clock_ns
     \<and> preCommit env s =
         s\<lparr>trace := trace s @
               [Call_reportActualWorkDuration (clock_now env - mStartTimeOfActualWork s),
                Call_PlatformEGL_preCommit]\<rparr>
     \<and> events_since s (preCommit env (beginFrame monotonic_clock_ns refreshIntervalNs frameId s)) =
         [Call_updateTargetWorkDuration
            (if sint refreshIntervalNs \<le> 0 then 16666667 else refreshIntervalNs),
          Call_PlatformEGL_beginFrame monotonic_clock_ns
            (if sint refreshIntervalNs \<le> 0 then 16666667 else refreshIntervalNs) frameId,
          Call_reportActualWorkDuration (clock_now env - monotonic_clock_ns),
          Call_PlatformEGL_preCommit])"
  by (simp add: beginFrame_def preCommit_def emit_def Let_def events_since_def)

theorem frame_pacing_session_validity_witness:
  "\<not> mPerformanceHintSession_isValid (idle_state False)
   \<and> trace (beginFrame 5000 0 1 (idle_state False)) = [Call_PlatformEGL_beginFrame 5000 0 1]
   \<and> trace (preCommit (good_driver 0) (idle_state False)) = [Call_PlatformEGL_preCommit]
   \<and> mPerformanceHintSession_isValid (idle_state True)
   \<and> events_since (idle_state True)
        (preCommit (good_driver 0) (beginFrame 5000 0 1 (idle_state True))) =
       [Call_updateTargetWorkDuration 16666667, Call_PlatformEGL_beginFrame 5000 16666667 1,
        Call_reportActualWorkDuration 4000, Call_PlatformEGL_preCommit]"
  using frame_pacing_session_validity [of "idle_state False" 5000 0 1 "good_driver 0"]
        frame_pacing_session_validity [of "idle_state True" 5000 0 1 "good_driver 0"]
  by (simp add: idle_state_def good_driver_def)

section \<open>The deferred release\<close>

text \<open>
  The scenario of the concrete checks below: the good driver transforms the producer
  image on the idle platform object.
\<close>

lemma good_driver_resolved:
  "eglGetNativeClientBufferANDROID (good_driver flags) = Some (\<lambda>b. b + 100)"
  by (simp add: good_driver_def)

lemma good_transform:
  "transformAcquiredImage (good_driver 0) producer_image (idle_state True) =
     (Inr \<lparr>image_ptr = 7, callback = Some PatchedCallback, userData = 12, handler = 3\<rparr>,
      (idle_state True)
        \<lparr>closures := [12 \<mapsto> \<lparr>acquiredImage = producer_image, display = 9\<rparr>],
         eglImages := {7},
         trace := [Call_eglGetNativeClientBufferANDROID 1, Call_AHardwareBuffer_describe 1,
                   Call_eglCreateImageKHR 9 EGL_NO_CONTEXT EGL_NATIVE_BUFFER_ANDROID 101
                     [EGL_NONE, EGL_NONE],
                   New_Closure 12]\<rparr>)"
proof -
  have a: "image_ptr producer_image + 100 \<noteq> 0"
    by simp
  have b: "eglCreateImageKHR (good_driver 0) (mEGLDisplay (idle_state True))
             (image_ptr producer_image + 100)
             (Config_data (fst (transform_attributes (good_driver 0)
                (image_ptr producer_image) (idle_state True)))) = 7"
    by (simp add: good_driver_def)
  have c: "(7::nat) \<noteq> EGL_NO_IMAGE_KHR"
    by (simp add: EGL_NO_IMAGE_KHR_def)
  from transformAcquiredImage_success [OF good_driver_resolved a b c]
  show ?thesis
    by (simp add: transform_attributes_result)
       (simp add: good_driver_def producer_image_def idle_state_def)
qed

lemma no_image_transform:
  "transformAcquiredImage no_image_driver producer_image (idle_state True) =
     (Inr AcquiredImage_empty,
      (idle_state True)
        \<lparr>trace := [Call_eglGetNativeClientBufferANDROID 1,
                   Call_AHardwareBuffer_describe 1,
                   Call_eglCreateImageKHR 9 EGL_NO_CONTEXT EGL_NATIVE_BUFFER_ANDROID 101
                     [EGL_NONE, EGL_NONE],
                   Slog_e [Text ''eglCreateImageKHR returned no image.'']]\<rparr>)"
proof -
  have p: "eglGetNativeClientBufferANDROID no_image_driver = Some (\<lambda>b. b + 100)"
    by (simp add: no_image_driver_def good_driver_def)
  have a: "image_ptr producer_image + 100 \<noteq> 0"
    by simp
  have b: "eglCreateImageKHR no_image_driver (mEGLDisplay (idle_state True))
             (image_ptr producer_image + 100)
             (Config_data (fst (transform_attributes no_image_driver (image_ptr producer_image)
                (idle_state True)))) = EGL_NO_IMAGE_KHR"
    by (simp add: no_image_driver_def)
  from transformAcquiredImage_no_image [OF p a b]
  show ?thesis
    by (simp add: transform_attributes_result)
       (simp add: no_image_driver_def good_driver_def idle_state_def producer_image_def)
qed

text \<open>
  Claim C1. Take an image that \<^verbatim>\<open>transformAcquiredImage\<close> transformed: its result
  is not the empty image and its closure was allocated. The callback of the result is
  the patched callback, and the image handle of the result is the live \<^verbatim>\<open>EGLImage\<close>
  the call created. Invoked with that handle and the closure, in any later state that
  still holds the closure, the patched callback performs, in this order and nothing
  else: \<^verbatim>\<open>eglDestroyImageKHR\<close> on that image with the display of the platform object;
  an error log line if and only if the destruction answered \<^verbatim>\<open>EGL_FALSE\<close>, without
  stopping; one invocation of the producer's callback with the producer's image handle
  and user data; the deletion of the closure.
\<close>

theorem patchedCallback_release_order:
  assumes "transformAcquiredImage env source s = (Inr r, s1)"
    and "r \<noteq> AcquiredImage_empty"
    and "userData r \<noteq> 0"
    and "callback source = Some f"
    and "closures s2 (userData r) = closures s1 (userData r)"
  shows "callback r = Some PatchedCallback
     \<and> image_ptr r \<in> eglImages s1
     \<and> patchedCallback env2 (image_ptr r) (userData r) s2 =
         Inr (s2\<lparr>closures := (closures s2)(userData r := None),
                 eglImages := (if eglDestroyImageKHR env2 (mEGLDisplay s) (image_ptr r)
                               then eglImages s2 - {image_ptr r} else eglImages s2),
                 trace := trace s2 @
                   Call_eglDestroyImageKHR (mEGLDisplay s) (image_ptr r) #
                   (if eglDestroyImageKHR env2 (mEGLDisplay s) (image_ptr r) then []
                    else [Slog_e [Text ''eglDestroyImageKHR failed.'']]) @
                   [Invoke_callback f (image_ptr source) (userData source),
                    Delete_Closure (userData r)]\<rparr>)"
proof -
  obtain g where g: "eglGetNativeClientBufferANDROID env = Some g"
    using assms(1) transformAcquiredImage_unresolved [of env source s]
    by (cases "eglGetNativeClientBufferANDROID env") auto
  let ?cb = "g (image_ptr source)"
  let ?img = "eglCreateImageKHR env (mEGLDisplay s) ?cb
                (Config_data (fst (transform_attributes env (image_ptr source) s)))"
  have cb: "?cb \<noteq> 0"
    using assms(1,2) transformAcquiredImage_no_client_buffer [OF g, of source s] by auto
  have img: "?img \<noteq> EGL_NO_IMAGE_KHR"
    using assms(1,2) cb transformAcquiredImage_no_image [OF g, of source s] by auto
  note ok = transformAcquiredImage_success [OF g cb refl img]
  have r: "r = \<lparr>image_ptr = ?img, callback = Some PatchedCallback,
                 userData = new_Closure env, handler = handler source\<rparr>"
    using assms(1) ok by simp
  have c0: "new_Closure env \<noteq> 0"
    using assms(3) r by simp
  have s1: "closures s1 (new_Closure env) =
              Some \<lparr>acquiredImage = source, display = mEGLDisplay s\<rparr>"
       "eglImages s1 = insert ?img (eglImages s)"
    using assms(1) ok c0 by auto
  have s2: "closures s2 (new_Closure env) =
              Some \<lparr>acquiredImage = source, display = mEGLDisplay s\<rparr>"
    using assms(5) s1 r by simp
  show ?thesis
    using r c0 s1(2) s2 assms(4)
    by (simp add: patchedCallback_def call_eglDestroyImageKHR_def delete_Closure_def
        slog_e_def emit_def Let_def)
qed

theorem patchedCallback_release_order_witness:
  "fst (transformAcquiredImage (good_driver 0) producer_image (idle_state True)) =
     Inr \<lparr>image_ptr = 7, callback = Some PatchedCallback, userData = 12, handler = 3\<rparr>
   \<and> \<lparr>image_ptr = 7, callback = Some PatchedCallback, userData = 12, handler = 3\<rparr>
     \<noteq> AcquiredImage_empty
   \<and> callback producer_image = Some (ProducerCallback 1)
   \<and> map_sum id trace
       (patchedCallback (good_driver 0) 7 12
          (snd (transformAcquiredImage (good_driver 0) producer_image (idle_state True)))) =
      Inr ([Call_eglGetNativeClientBufferANDROID 1, Call_AHardwareBuffer_describe 1,
            Call_eglCreateImageKHR 9 EGL_NO_CONTEXT EGL_NATIVE_BUFFER_ANDROID 101
              [EGL_NONE, EGL_NONE],
            New_Closure 12,
            Call_eglDestroyImageKHR 9 7,
            Invoke_callback (ProducerCallback 1) 1 2,
            Delete_Closure 12])
   \<and> map_sum id trace
       (patchedCallback ((good_driver 0)\<lparr>eglDestroyImageKHR := (\<lambda>dpy img. False)\<rparr>) 7 12
          (snd (transformAcquiredImage (good_driver 0) producer_image (idle_state True)))) =
      Inr ([Call_eglGetNativeClientBufferANDROID 1, Call_AHardwareBuffer_describe 1,
            Call_eglCreateImageKHR 9 EGL_NO_CONTEXT EGL_NATIVE_BUFFER_ANDROID 101
              [EGL_NONE, EGL_NONE],
            New_Closure 12,
            Call_eglDestroyImageKHR 9 7,
            Slog_e [Text ''eglDestroyImageKHR failed.''],
            Invoke_callback (ProducerCallback 1) 1 2,
            Delete_Closure 12])"
  using patchedCallback_release_order
          [of "good_driver 0" producer_image "idle_state True"
              "\<lparr>image_ptr = 7, callback = Some PatchedCallback, userData = 12, handler = 3\<rparr>"
              "snd (transformAcquiredImage (good_driver 0) producer_image (idle_state True))"
              "ProducerCallback 1"
              "snd (transformAcquiredImage (good_driver 0) producer_image (idle_state True))"
              "good_driver 0"]
        patchedCallback_release_order
          [of "good_driver 0" producer_image "idle_state True"
              "\<lparr>image_ptr = 7, callback = Some PatchedCallback, userData = 12, handler = 3\<rparr>"
              "snd (transformAcquiredImage (good_driver 0) producer_image (idle_state True))"
              "ProducerCallback 1"
              "snd (transformAcquiredImage (good_driver 0) producer_image (idle_state True))"
              "(good_driver 0)\<lparr>eglDestroyImageKHR := (\<lambda>dpy img. False)\<rparr>"]
  by (simp add: good_transform AcquiredImage_empty_def)
     (simp add: good_driver_def producer_image_def idle_state_def)

section \<open>External texture binding\<close>

text \<open>
  Claim C7. When the buffer's format is classified as external,
  \<^verbatim>\<open>createExternalImageTexture\<close> issues no \<^verbatim>\<open>glTexParameteri\<close> and no
  \<^verbatim>\<open>glGenerateMipmap\<close> call, whatever the driver answers. When the format is not
  external and the call returns a texture, it issues exactly the linear-mipmap-linear
  min filter, the linear mag filter and the mip generation, on \<^verbatim>\<open>GL_TEXTURE_2D\<close>, in
  this order.
\<close>

theorem mip_and_filter_calls_follow_target:
  "(isExternalFormat (format (AHardwareBuffer_describe env hb)) \<longrightarrow>
      filter is_mip_or_filter_call
        (events_since s (snd (createExternalImageTexture env hb s))) = [])
   \<and> (\<not> isExternalFormat (format (AHardwareBuffer_describe env hb))
        \<and> fst (createExternalImageTexture env hb s) = Inr p \<and> p \<noteq> 0 \<longrightarrow>
      filter is_mip_or_filter_call
        (events_since s (snd (createExternalImageTexture env hb s))) =
        [Call_glTexParameteri GL_TEXTURE_2D GL_TEXTURE_MIN_FILTER GL_LINEAR_MIPMAP_LINEAR,
         Call_glTexParameteri GL_TEXTURE_2D GL_TEXTURE_MAG_FILTER GL_LINEAR,
         Call_glGenerateMipmap GL_TEXTURE_2D])"
proof (cases "new_ExternalTexture env = 0")
  case True
  then show ?thesis
    by (auto simp add: createExternalImageTexture_alloc_failed events_since_def)
next
  case alloc: False
  show ?thesis
  proof (cases "eglGetNativeClientBufferANDROID env")
    case None
    show ?thesis
      using createExternalImageTexture_unresolved [OF alloc None, of hb s]
      by (auto simp add: events_since_def)
  next
    case (Some g)
    let ?img = "eglCreateImageKHR env (eglGetCurrentDisplay env) (g hb) imageAttrs"
    consider (image) "?img = EGL_NO_IMAGE_KHR"
      | (bind) "?img \<noteq> EGL_NO_IMAGE_KHR" "glGetError env 0 \<noteq> GL_NO_ERROR"
      | (success) "?img \<noteq> EGL_NO_IMAGE_KHR" "glGetError env 0 = GL_NO_ERROR"
      by blast
    then show ?thesis
    proof cases
      case image
      show ?thesis
        using createExternalImageTexture_no_image(1,2) [OF alloc Some image, of s]
        by (auto simp add: events_since_def)
    next
      case bind
      show ?thesis
        using createExternalImageTexture_bind_failed(1,2) [OF alloc Some refl bind, of s]
        by (auto simp add: events_since_def)
    next
      case success
      show ?thesis
        using createExternalImageTexture_success_trace [OF alloc Some success, of s]
        by (auto simp add: events_since_def)
    qed
  qed
qed

theorem mip_and_filter_calls_follow_target_witness:
  "isExternalFormat (format (AHardwareBuffer_describe
      ((good_driver 0)\<lparr>AHardwareBuffer_describe :=
          (\<lambda>b. \<lparr>format = AHARDWAREBUFFER_FORMAT_Y8Cb8Cr8_420, usage = 0\<rparr>)\<rparr>) 1))
   \<and> filter is_mip_or_filter_call
        (events_since (idle_state True)
           (snd (createExternalImageTexture
              ((good_driver 0)\<lparr>AHardwareBuffer_describe :=
                 (\<lambda>b. \<lparr>format = AHARDWAREBUFFER_FORMAT_Y8Cb8Cr8_420, usage = 0\<rparr>)\<rparr>)
              1 (idle_state True)))) = []
   \<and> \<not> isExternalFormat (format (AHardwareBuffer_describe (good_driver 0) 1))
   \<and> fst (createExternalImageTexture (good_driver 0) 1 (idle_state True)) = Inr 11
   \<and> filter is_mip_or_filter_call
        (events_since (idle_state True)
           (snd (createExternalImageTexture (good_driver 0) 1 (idle_state True)))) =
        [Call_glTexParameteri GL_TEXTURE_2D GL_TEXTURE_MIN_FILTER GL_LINEAR_MIPMAP_LINEAR,
         Call_glTexParameteri GL_TEXTURE_2D GL_TEXTURE_MAG_FILTER GL_LINEAR,
         Call_glGenerateMipmap GL_TEXTURE_2D]"
proof -
  have ext: "isExternalFormat (format (AHardwareBuffer_describe
      ((good_driver 0)\<lparr>AHardwareBuffer_describe :=
          (\<lambda>b. \<lparr>format = AHARDWAREBUFFER_FORMAT_Y8Cb8Cr8_420, usage = 0\<rparr>)\<rparr>) 1))"
    by (simp add: good_driver_def isExternalFormat_def format_defs)
  have rgba: "\<not> isExternalFormat (format (AHardwareBuffer_describe (good_driver 0) 1))"
    by (simp add: good_driver_def isExternalFormat_def)
  have ok: "fst (createExternalImageTexture (good_driver 0) 1 (idle_state True)) = Inr 11"
    by (simp add: createExternalImageTexture_result)
       (simp add: good_driver_def EGL_NO_IMAGE_KHR_def)
  show ?thesis
    using ext rgba ok
      mip_and_filter_calls_follow_target
        [of "(good_driver 0)\<lparr>AHardwareBuffer_describe :=
               (\<lambda>b. \<lparr>format = AHARDWAREBUFFER_FORMAT_Y8Cb8Cr8_420, usage = 0\<rparr>)\<rparr>"
            1 "idle_state True"]
      mip_and_filter_calls_follow_target [of "good_driver 0" 1 "idle_state True" 11]
    by simp
qed

text \<open>
  Claim C2 asks that every error the driver reports after the image was created rolls
  the call back. Only the first \<^verbatim>\<open>glGetError\<close> check does
  (\<open>createExternalImageTexture_bind_failed\<close>). In this run
  \<^verbatim>\<open>glEGLImageTargetTexture2DOES\<close> and the mip generation both leave
  \<^verbatim>\<open>GL_INVALID_OPERATION\<close>: the two errors are logged, no
  \<^verbatim>\<open>glDeleteTextures\<close> and no \<^verbatim>\<open>eglDestroyImageKHR\<close> is issued, texture name
  \<open>5\<close> and image \<open>7\<close> stay alive, and the texture record \<open>11\<close> is returned.
\<close>

theorem createExternalImageTexture_late_errors_only_logged:
  "fst (createExternalImageTexture
          ((good_driver 0)\<lparr>glGetError :=
             (\<lambda>n. if n = 0 then GL_NO_ERROR else GL_INVALID_OPERATION)\<rparr>)
          1 (idle_state True)) = Inr 11
   \<and> glTextures (snd (createExternalImageTexture
          ((good_driver 0)\<lparr>glGetError :=
             (\<lambda>n. if n = 0 then GL_NO_ERROR else GL_INVALID_OPERATION)\<rparr>)
          1 (idle_state True))) = {5}
   \<and> eglImages (snd (createExternalImageTexture
          ((good_driver 0)\<lparr>glGetError :=
             (\<lambda>n. if n = 0 then GL_NO_ERROR else GL_INVALID_OPERATION)\<rparr>)
          1 (idle_state True))) = {7}
   \<and> externalTextures (snd (createExternalImageTexture
          ((good_driver 0)\<lparr>glGetError :=
             (\<lambda>n. if n = 0 then GL_NO_ERROR else GL_INVALID_OPERATION)\<rparr>)
          1 (idle_state True))) 11 = Some \<lparr>target = GL_TEXTURE_2D, id_texture = 5\<rparr>
   \<and> trace (snd (createExternalImageTexture
          ((good_driver 0)\<lparr>glGetError :=
             (\<lambda>n. if n = 0 then GL_NO_ERROR else GL_INVALID_OPERATION)\<rparr>)
          1 (idle_state True))) =
     [Slog_i [Text ''mExternalBufferPlatformEGLAndroid''],
      New_ExternalTexture 11,
      Call_AHardwareBuffer_describe 1,
      Slog_i [Text ''mExternalBufferPlatformEGLAndroid hb format '', Number 1],
      Slog_i [Text ''mExternalBufferPlatformEGLAndroid Texture target is '',
              Text ''GL_TEXTURE_2D''],
      Call_eglGetNativeClientBufferANDROID 1,
      Call_eglCreateImageKHR 9 EGL_NO_CONTEXT EGL_NATIVE_BUFFER_ANDROID 101 imageAttrs,
      Call_glGenTextures 5,
      Call_glActiveTexture GL_TEXTURE0,
      Call_glBindTexture GL_TEXTURE_2D 5,
      Call_glGetError,
      Call_glEGLImageTargetTexture2DOES GL_TEXTURE_2D 7,
      Call_glGetError,
      Slog_e [Text ''mExternalBufferPlatformEGLAndroid Error after glEGLImageTargetTexture2DOES: '',
              Number 1282],
      Call_glTexParameteri GL_TEXTURE_2D GL_TEXTURE_MIN_FILTER GL_LINEAR_MIPMAP_LINEAR,
      Call_glTexParameteri GL_TEXTURE_2D GL_TEXTURE_MAG_FILTER GL_LINEAR,
      Call_glGenerateMipmap GL_TEXTURE_2D,
      Call_glGetError,
      Slog_e [Text ''mExternalBufferPlatformEGLAndroid Error after mipmap generation: '',
              Number 1282],
      Slog_i [Text ''mExternalBufferPlatformEGLAndroid Successfully created external image texture with ID: '',
              Number 5]]"
proof -
  let ?env = "(good_driver 0)\<lparr>glGetError :=
                (\<lambda>n. if n = 0 then GL_NO_ERROR else GL_INVALID_OPERATION)\<rparr>"
  have p: "new_ExternalTexture ?env \<noteq> 0"
    by (simp add: good_driver_def)
  have g: "eglGetNativeClientBufferANDROID ?env = Some (\<lambda>b. b + 100)"
    by (simp add: good_driver_def)
  have i: "eglCreateImageKHR ?env (eglGetCurrentDisplay ?env) (1 + 100) imageAttrs = 7"
    by (simp add: good_driver_def)
  have i0: "(7::nat) \<noteq> EGL_NO_IMAGE_KHR"
    by (simp add: EGL_NO_IMAGE_KHR_def)
  have i1: "eglCreateImageKHR ?env (eglGetCurrentDisplay ?env) (1 + 100) imageAttrs
              \<noteq> EGL_NO_IMAGE_KHR"
    using i i0 by simp
  have e: "glGetError ?env 0 = GL_NO_ERROR"
    by (simp add: good_driver_def)
  have ext: "\<not> isExternalFormat (format (AHardwareBuffer_describe ?env 1))"
    by (simp add: good_driver_def isExternalFormat_def)
  have st: "glTextures (idle_state True) = {}" "eglImages (idle_state True) = {}"
    "trace (idle_state True) = []"
    by (simp_all add: idle_state_def)
  have err: "GL_INVALID_OPERATION \<noteq> GL_NO_ERROR" "unat GL_INVALID_OPERATION = 1282"
    by (simp_all add: GL_INVALID_OPERATION_def GL_NO_ERROR_def)
  show ?thesis
    using createExternalImageTexture_success_resources [OF p g i i0 e, of "idle_state True"]
      createExternalImageTexture_success_trace [OF p g i1 e, of "idle_state True"] ext
    by (simp add: st err texture_target_def)
       (simp add: good_driver_def AHARDWAREBUFFER_FORMAT_R8G8B8A8_UNORM_def)
qed

section \<open>Failed acquisitions\<close>

text \<open>
  With a resolved entry point, both failures that \<^verbatim>\<open>transformAcquiredImage\<close> tests
  for return the empty image and leave the state as it was but for the trace: a null
  client buffer ends the call after one error log line, a rejected image after the
  creation call and one error log line, and no closure is allocated on either path.
\<close>

lemma transformAcquiredImage_returned_failure:
  assumes "eglGetNativeClientBufferANDROID env = Some g"
    and "g (image_ptr source) = 0
         \<or> eglCreateImageKHR env (mEGLDisplay s) (g (image_ptr source))
              (Config_data (fst (transform_attributes env (image_ptr source) s)))
            = EGL_NO_IMAGE_KHR"
  shows "fst (transformAcquiredImage env source s) = Inr AcquiredImage_empty
     \<and> snd (transformAcquiredImage env source s) =
         s\<lparr>trace := trace (snd (transformAcquiredImage env source s))\<rparr>
     \<and> closures (snd (transformAcquiredImage env source s)) = closures s
     \<and> eglImages (snd (transformAcquiredImage env source s)) = eglImages s
     \<and> events_since s (snd (transformAcquiredImage env source s)) =
         (if g (image_ptr source) = 0
          then [Call_eglGetNativeClientBufferANDROID (image_ptr source),
                Slog_e [Text ''Unable to get EGLClientBuffer from AHardwareBuffer.'']]
          else Call_eglGetNativeClientBufferANDROID (image_ptr source) #
               (if 26 \<le> device_api_level env
                then [Call_AHardwareBuffer_describe (image_ptr source)] else []) @
               [Call_eglCreateImageKHR (mEGLDisplay s) EGL_NO_CONTEXT EGL_NATIVE_BUFFER_ANDROID
                  (g (image_ptr source))
                  (Config_data (fst (transform_attributes env (image_ptr source) s))),
                Slog_e [Text ''eglCreateImageKHR returned no image.'']])"
proof (cases "g (image_ptr source) = 0")
  case True
  then show ?thesis
    by (simp add: transformAcquiredImage_no_client_buffer [OF assms(1)] events_since_def)
next
  case False
  with assms(2) have "eglCreateImageKHR env (mEGLDisplay s) (g (image_ptr source))
              (Config_data (fst (transform_attributes env (image_ptr source) s)))
            = EGL_NO_IMAGE_KHR"
    by simp
  from transformAcquiredImage_no_image [OF assms(1) False this] False show ?thesis
    by (simp add: events_since_def)
qed

text \<open>
  Claim C8 counts an unresolved entry point among the ways the platform cannot produce a
  client-buffer view. The pointer \<^verbatim>\<open>eglGetNativeClientBufferANDROID\<close> is null until
  \<^verbatim>\<open>createDriver\<close> stores what \<^verbatim>\<open>eglGetProcAddress\<close> returned, which may be null
  as well, and line 336 calls through it without a test. In this run the pointer is null:
  the call does not return the empty image, it ends in the fault of a call through a null
  function pointer, before anything is logged.
\<close>

theorem transformAcquiredImage_unresolved_entry_point:
  "eglGetNativeClientBufferANDROID unresolved_driver = None
   \<and> transformAcquiredImage unresolved_driver producer_image (idle_state True) =
       (Inl NullFunctionPointer, idle_state True)"
proof -
  have p: "eglGetNativeClientBufferANDROID unresolved_driver = None"
    by (simp add: unresolved_driver_def)
  from p transformAcquiredImage_unresolved [OF p] show ?thesis
    by simp
qed

text \<open>
  Claim C10. Whenever \<^verbatim>\<open>transformAcquiredImage\<close> returns the empty image, the call
  invoked no release callback, stored no closure through which the producer's callback
  could be reached later, and the returned image carries no callback.
\<close>

theorem failed_transform_never_invokes_producer_callback:
  assumes "fst (transformAcquiredImage env source s) = Inr AcquiredImage_empty"
  shows "filter is_callback_invocation
           (events_since s (snd (transformAcquiredImage env source s))) = []
     \<and> closures (snd (transformAcquiredImage env source s)) = closures s
     \<and> callback (projr (fst (transformAcquiredImage env source s))) = None"
proof (cases "eglGetNativeClientBufferANDROID env")
  case None
  from transformAcquiredImage_unresolved [OF None, of source s] assms show ?thesis
    by simp
next
  case (Some g)
  let ?cb = "g (image_ptr source)"
  let ?img = "eglCreateImageKHR env (mEGLDisplay s) ?cb
                (Config_data (fst (transform_attributes env (image_ptr source) s)))"
  consider (buffer) "?cb = 0" | (image) "?cb \<noteq> 0" "?img = EGL_NO_IMAGE_KHR"
    | (success) "?cb \<noteq> 0" "?img \<noteq> EGL_NO_IMAGE_KHR"
    by blast
  then show ?thesis
  proof cases
    case buffer
    then show ?thesis
      by (simp add: transformAcquiredImage_no_client_buffer [OF Some] events_since_def
          AcquiredImage_empty_def)
  next
    case image
    from transformAcquiredImage_no_image [OF Some image] show ?thesis
      by (simp add: events_since_def AcquiredImage_empty_def)
  next
    case success
    from transformAcquiredImage_success [OF Some success(1) refl success(2)] assms
    have False
      by (simp add: AcquiredImage_empty_def EGL_NO_IMAGE_KHR_def)
    then show ?thesis ..
  qed
qed

theorem failed_transform_never_invokes_producer_callback_witness:
  "fst (transformAcquiredImage no_image_driver producer_image (idle_state True)) =
     Inr AcquiredImage_empty
   \<and> callback producer_image = Some (ProducerCallback 1)
   \<and> filter is_callback_invocation
        (events_since (idle_state True)
           (snd (transformAcquiredImage no_image_driver producer_image (idle_state True)))) = []
   \<and> closures (snd (transformAcquiredImage no_image_driver producer_image (idle_state True)))
       = Map.empty"
  using failed_transform_never_invokes_producer_callback
          [of no_image_driver producer_image "idle_state True"]
  by (simp add: no_image_transform)
     (simp add: idle_state_def producer_image_def)

text \<open>
  Claim C9 asks that a failed allocation of an auxiliary record returns failure and rolls
  back. The texture record is checked after its allocation
  (\<open>createExternalImageTexture_alloc_failed\<close>); the closure is not. In this run
  \<^verbatim>\<open>new(std::nothrow) Closure\<close> returns null: the call returns a non-empty image
  whose user data is null, image \<open>7\<close> stays alive, and the patched callback faults on
  the null closure.
\<close>

theorem transformAcquiredImage_closure_allocation_unchecked:
  "transformAcquiredImage no_closure_driver producer_image (idle_state True) =
     (Inr \<lparr>image_ptr = 7, callback = Some PatchedCallback, userData = 0, handler = 3\<rparr>,
      (idle_state True)
        \<lparr>eglImages := {7},
         trace := [Call_eglGetNativeClientBufferANDROID 1, Call_AHardwareBuffer_describe 1,
                   Call_eglCreateImageKHR 9 EGL_NO_CONTEXT EGL_NATIVE_BUFFER_ANDROID 101
                     [EGL_NONE, EGL_NONE],
                   New_Closure 0]\<rparr>)
   \<and> fst (transformAcquiredImage no_closure_driver producer_image (idle_state True))
       \<noteq> Inr AcquiredImage_empty
   \<and> patchedCallback no_closure_driver 7 0
       (snd (transformAcquiredImage no_closure_driver producer_image (idle_state True))) =
      Inl InvalidClosurePointer"
proof -
  have p: "eglGetNativeClientBufferANDROID no_closure_driver = Some (\<lambda>b. b + 100)"
    by (simp add: no_closure_driver_def good_driver_def)
  have a: "image_ptr producer_image + 100 \<noteq> 0"
    by simp
  have b: "eglCreateImageKHR no_closure_driver (mEGLDisplay (idle_state True))
             (image_ptr producer_image + 100)
             (Config_data (fst (transform_attributes no_closure_driver
                (image_ptr producer_image) (idle_state True)))) = 7"
    by (simp add: no_closure_driver_def good_driver_def)
  have c: "(7::nat) \<noteq> EGL_NO_IMAGE_KHR"
    by (simp add: EGL_NO_IMAGE_KHR_def)
  have t: "transformAcquiredImage no_closure_driver producer_image (idle_state True) =
     (Inr \<lparr>image_ptr = 7, callback = Some PatchedCallback, userData = 0, handler = 3\<rparr>,
      (idle_state True)
        \<lparr>eglImages := {7},
         trace := [Call_eglGetNativeClientBufferANDROID 1, Call_AHardwareBuffer_describe 1,
                   Call_eglCreateImageKHR 9 EGL_NO_CONTEXT EGL_NATIVE_BUFFER_ANDROID 101
                     [EGL_NONE, EGL_NONE],
                   New_Closure 0]\<rparr>)"
    using transformAcquiredImage_success [OF p a b c]
    by (simp add: transform_attributes_result)
       (simp add: no_closure_driver_def good_driver_def idle_state_def producer_image_def)
  show ?thesis
    by (simp add: t AcquiredImage_empty_def patchedCallback_def)
qed

section \<open>Image attributes\<close>

lemma egl_names_distinct:
  "EGL_PROTECTED_CONTENT_EXT \<noteq> EGL_NONE"
  "EGL_IMAGE_PRESERVED_KHR \<noteq> EGL_NONE"
  "EGL_IMAGE_PRESERVED_KHR \<noteq> EGL_PROTECTED_CONTENT_EXT"
  "EGL_PROTECTED_CONTENT_EXT \<noteq> EGL_IMAGE_PRESERVED_KHR"
  by (simp_all add: EGL_PROTECTED_CONTENT_EXT_def EGL_NONE_def EGL_IMAGE_PRESERVED_KHR_def)

text \<open>
  After \<^verbatim>\<open>attributes[name] = v\<close> the flat array gives \<open>name\<close> the value \<open>v\<close>,
  whatever pairs the \<open>Config\<close> held before, as long as none of them has the sentinel
  as its key.
\<close>

lemma Config_assign_value:
  assumes "name \<noteq> EGL_NONE" and "EGL_NONE \<notin> fst ` set cfg"
  shows "attrib_value (Config_data (Config_assign cfg name v)) name = Some v"
  using assms by (induction cfg name v rule: Config_assign.induct) auto

text \<open>
  \<^verbatim>\<open>transformAcquiredImage\<close> creates its image with the default \<open>Config\<close>, to which
  the protected-content pair has been assigned when the API level is at least 26 and the
  usage flags carry the bit. The list then gives the attribute the value
  \<^verbatim>\<open>EGL_TRUE\<close>.
\<close>

lemma transformAcquiredImage_attribs:
  assumes "eglGetNativeClientBufferANDROID env = Some g"
    and "g (image_ptr source) \<noteq> 0"
  shows "created_image_attribs
           (events_since s (snd (transformAcquiredImage env source s))) =
         [Config_data
            (if 26 \<le> device_api_level env
                \<and> usage (AHardwareBuffer_describe env (image_ptr source))
                    AND AHARDWAREBUFFER_USAGE_PROTECTED_CONTENT \<noteq> 0
             then Config_assign (Config_default env) EGL_PROTECTED_CONTENT_EXT EGL_TRUE
             else Config_default env)]"
proof -
  let ?img = "eglCreateImageKHR env (mEGLDisplay s) (g (image_ptr source))
                (Config_data (fst (transform_attributes env (image_ptr source) s)))"
  have "created_image_attribs
          (events_since s (snd (transformAcquiredImage env source s))) =
        [Config_data (fst (transform_attributes env (image_ptr source) s))]"
  proof (cases "?img = EGL_NO_IMAGE_KHR")
    case True
    from transformAcquiredImage_no_image [OF assms True] show ?thesis
      by (simp add: events_since_def created_image_attribs_append)
  next
    case False
    from transformAcquiredImage_success [OF assms refl False] show ?thesis
      by (simp add: events_since_def created_image_attribs_append)
  qed
  then show ?thesis
    by (simp add: transform_attributes_result(1))
qed

lemma transformAcquiredImage_protected_content:
  assumes "eglGetNativeClientBufferANDROID env = Some g"
    and "g (image_ptr source) \<noteq> 0"
    and "26 \<le> device_api_level env"
    and "usage (AHardwareBuffer_describe env (image_ptr source))
           AND AHARDWAREBUFFER_USAGE_PROTECTED_CONTENT \<noteq> 0"
    and "EGL_NONE \<notin> fst ` set (Config_default env)"
  shows "map (\<lambda>attrs. attrib_value attrs EGL_PROTECTED_CONTENT_EXT)
           (created_image_attribs
              (events_since s (snd (transformAcquiredImage env source s)))) =
         [Some EGL_TRUE]"
  using transformAcquiredImage_attribs [OF assms(1,2), of s] assms(3,4)
    Config_assign_value [OF egl_names_distinct(1) assms(5), of EGL_TRUE]
  by simp



end
